theory Spec2Isabelle
  imports Complex_Main "HOL-Library.Multiset" "HOL-Library.Log_Nat"
begin

section \<open>JavaScript numbers\<close>

text \<open>
  The front end computes with JavaScript numbers. A finite number is modelled by the
  rational it denotes (every finite double is a rational); the three special values are
  constructors of their own. \<open>Math.round\<close>, \<open>Math.min\<close> and \<open>Math.max\<close> are exact on
  doubles, so their model is exact. A sum or a quotient the front end computes is
  rounded to the nearest double, as IEEE 754 prescribes (see the next section); the
  difference of two integers in a sort comparator is exact. Negative zero is
  identified with zero: it is falsy like zero, and \<open>Math.max(0, -0)\<close> is \<open>0\<close>.
\<close>

datatype jsnum = NaN | NegInf | Fin rat | PosInf

text \<open>\<open>Math.round(x)\<close>: the nearest integer, a tie going towards plus infinity.\<close>

definition Math_round :: "rat \<Rightarrow> int" where
  "Math_round x = \<lfloor>x + 1 / 2\<rfloor>"

fun Math_round_js :: "jsnum \<Rightarrow> jsnum" where
  "Math_round_js (Fin x) = Fin (of_int (Math_round x))"
| "Math_round_js n = n"

fun js_le :: "jsnum \<Rightarrow> jsnum \<Rightarrow> bool" where
  "js_le NaN _ = False"
| "js_le _ NaN = False"
| "js_le NegInf _ = True"
| "js_le _ PosInf = True"
| "js_le (Fin x) (Fin y) = (x \<le> y)"
| "js_le _ _ = False"

text \<open>\<open>Math.min\<close> and \<open>Math.max\<close> return \<open>NaN\<close> as soon as one argument is \<open>NaN\<close>.\<close>

fun Math_min :: "jsnum \<Rightarrow> jsnum \<Rightarrow> jsnum" where
  "Math_min NaN _ = NaN"
| "Math_min _ NaN = NaN"
| "Math_min a b = (if js_le a b then a else b)"

fun Math_max :: "jsnum \<Rightarrow> jsnum \<Rightarrow> jsnum" where
  "Math_max NaN _ = NaN"
| "Math_max _ NaN = NaN"
| "Math_max a b = (if js_le a b then b else a)"

text \<open>A number is falsy when it is \<open>NaN\<close> or zero; \<open>a || b\<close> is \<open>b\<close> exactly then.\<close>

fun falsy :: "jsnum \<Rightarrow> bool" where
  "falsy NaN = True"
| "falsy (Fin x) = (x = 0)"
| "falsy _ = False"

definition js_or :: "jsnum \<Rightarrow> jsnum \<Rightarrow> jsnum" where
  "js_or a b = (if falsy a then b else a)"

text \<open>
  Subtraction of two property reads: a property the object does not have reads as
  \<open>undefined\<close> (\<open>None\<close>), and \<open>undefined - x\<close> is \<open>NaN\<close> (\<open>None\<close> in the result).
\<close>

fun js_sub :: "rat option \<Rightarrow> rat option \<Rightarrow> rat option" where
  "js_sub (Some a) (Some b) = Some (a - b)"
| "js_sub _ _ = None"

text \<open>A string is falsy when it is \<open>undefined\<close> or empty.\<close>

fun str_or :: "string option \<Rightarrow> string \<Rightarrow> string" where
  "str_or None d = d"
| "str_or (Some s) d = (if s = [] then d else s)"

text \<open>Decimal rendering of a natural number inside a template string.\<close>

fun show_nat :: "nat \<Rightarrow> string" where
  "show_nat n =
     (if n < 10 then [''0123456789'' ! n]
      else show_nat (n div 10) @ [''0123456789'' ! (n mod 10)])"

declare show_nat.simps [simp del]

section \<open>Double arithmetic\<close>

text \<open>
  The binary exponent of a positive rational: \<open>bitlen\<close> is the number of binary digits
  of a positive integer, so the difference of the bit lengths of numerator and
  denominator is the exponent or exceeds it by one.
\<close>

definition ilog2 :: "rat \<Rightarrow> int" where
  "ilog2 x =
     (let d = bitlen (fst (quotient_of x)) - bitlen (snd (quotient_of x))
      in if 2 powi d \<le> x then d else d - 1)"

text \<open>
  The spacing of the doubles around \<open>x\<close>: 53 significant bits, and the spacing of the
  subnormal numbers below the exponent -1022.
\<close>

definition ulp64 :: "rat \<Rightarrow> rat" where
  "ulp64 x = 2 powi (max (ilog2 \<bar>x\<bar>) (- 1022) - 52)"

text \<open>The nearest integer, a tie going to the even one.\<close>

definition round_half_even :: "rat \<Rightarrow> int" where
  "round_half_even y =
     (if y - of_int \<lfloor>y\<rfloor> < 1 / 2 then \<lfloor>y\<rfloor>
      else if 1 / 2 < y - of_int \<lfloor>y\<rfloor> then \<lfloor>y\<rfloor> + 1
      else if even \<lfloor>y\<rfloor> then \<lfloor>y\<rfloor> else \<lfloor>y\<rfloor> + 1)"

text \<open>
  The rational \<open>x\<close> rounded to the nearest double, with the exponent unbounded above;
  \<open>to_double\<close> turns a result of magnitude \<open>2 ^ 1024\<close> or more into an infinity.
\<close>

definition fl64 :: "rat \<Rightarrow> rat" where
  "fl64 x = (if x = 0 then 0 else of_int (round_half_even (x / ulp64 x)) * ulp64 x)"

definition to_double :: "rat \<Rightarrow> jsnum" where
  "to_double x =
     (if 2 ^ 1024 \<le> fl64 x then PosInf
      else if fl64 x \<le> - (2 ^ 1024) then NegInf
      else Fin (fl64 x))"

text \<open>
  \<open>a + b\<close> on two finite numbers, and \<open>x / 2\<close>. Neither produces \<open>NaN\<close> from
  finite operands.
\<close>

definition js_add :: "rat \<Rightarrow> rat \<Rightarrow> jsnum" where
  "js_add a b = to_double (a + b)"

fun js_half :: "jsnum \<Rightarrow> jsnum" where
  "js_half (Fin x) = to_double (x / 2)"
| "js_half n = n"

section \<open>\<open>Array.prototype.sort\<close>\<close>

text \<open>
  ECMAScript requires \<open>sort\<close> to be stable, and its \<open>SortCompare\<close> reads a comparator
  result of \<open>NaN\<close> as \<open>+0\<close>. For a consistent comparator the stable sorted arrangement of
  an array is unique, so every conforming engine returns what the stable insertion sort
  below returns. Both comparators of the dashboard are consistent: one is a difference of
  numbers, the other is constantly \<open>NaN\<close>.
\<close>

definition SortCompare :: "('a \<Rightarrow> 'a \<Rightarrow> rat option) \<Rightarrow> 'a \<Rightarrow> 'a \<Rightarrow> rat" where
  "SortCompare comparefn x y = (case comparefn x y of None \<Rightarrow> 0 | Some v \<Rightarrow> v)"

fun js_insert :: "('a \<Rightarrow> 'a \<Rightarrow> rat option) \<Rightarrow> 'a \<Rightarrow> 'a list \<Rightarrow> 'a list" where
  "js_insert comparefn x [] = [x]"
| "js_insert comparefn x (y # ys) =
     (if SortCompare comparefn x y \<le> 0 then x # y # ys
      else y # js_insert comparefn x ys)"

fun js_sort :: "('a \<Rightarrow> 'a \<Rightarrow> rat option) \<Rightarrow> 'a list \<Rightarrow> 'a list" where
  "js_sort comparefn [] = []"
| "js_sort comparefn (x # xs) = js_insert comparefn x (js_sort comparefn xs)"

section \<open>The score gauge (components/ScoreGauge.tsx)\<close>

text \<open>
  \<^verbatim>\<open>const validScore = Math.max(0, Math.min(100, Math.round(score) || 0));\<close>
  Both definitions of the component in the file compute \<open>validScore\<close> by this line, and
  render it as \<open>{validScore}%\<close>.
\<close>

definition validScore :: "jsnum \<Rightarrow> jsnum" where
  "validScore score =
     Math_max (Fin 0) (Math_min (Fin 100) (js_or (Math_round_js score) (Fin 0)))"

section \<open>The data model of lib/api.ts\<close>

record ATSCandidateProfile =
  candidate_summary :: string
  total_experience :: rat
  relevant_experience :: rat
  technical_skills :: "string list"
  soft_skills :: "string list"
  tools_technologies :: "string list"
  certifications :: "string list"
  education_details :: "string list"
  job_titles :: "string list"
  projects_responsibilities :: "string list"
  achievements_awards :: "string list"
  domain_experience :: "string list"
  contact_information :: "(string \<times> string) list"
  resume_keywords :: "string list"
  seniority_level :: string

record ATSJobProfile =
  mandatory_skills :: "string list"
  good_to_have_skills :: "string list"
  required_experience :: rat
  required_tools_technologies :: "string list"
  role_responsibilities :: "string list"
  education_requirements :: "string list"
  preferred_certifications :: "string list"
  required_industry_domain :: "string list"
  relevant_keywords :: "string list"

record ATSScoreBreakdown =
  skill_match_score :: rat
  experience_score :: rat
  keyword_match_score :: rat
  education_match_score :: rat
  certifications_score :: rat
  role_fit_score :: rat
  tech_stack_match_score :: rat
  matched_skills :: "string list"
  missing_skills :: "string list"
  matched_tools :: "string list"
  missing_tools :: "string list"
  matched_keywords :: "string list"
  missing_keywords :: "string list"
  matched_certifications :: "string list"
  missing_certifications :: "string list"

record ATSResult =
  ats_score :: rat
  status :: string
  score_breakdown :: ATSScoreBreakdown
  candidate_profile :: ATSCandidateProfile
  job_profile :: ATSJobProfile
  professional_summary :: string
  improvement_suggestions :: "string list"
  keywords_to_add :: "string list"
  final_recommendation :: string

text \<open>
  \<open>ScoringResult\<close>, the row type of the HR dashboard. Its fields that share a name with
  a field of \<open>ATSScoreBreakdown\<close> carry the suffix \<open>_sr\<close>; \<open>total_score\<close> is always
  assigned a \<open>Math.round\<close> result, hence an integer. The untyped \<open>detailed_scoring\<close>
  property is never assigned and is left out.
\<close>

record ScoringResult =
  resume_id :: string
  filename :: string
  total_score :: int
  skill_match_score_sr :: rat
  experience_score_sr :: rat
  education_score :: rat
  project_score :: "rat option"
  similarity_score :: rat
  is_shortlisted :: bool
  matched_skills_sr :: "string list"
  missing_skills_sr :: "string list"
  suggestions :: "string list"
  candidate_email :: "string option"
  atsResult :: "ATSResult option"
  rank :: "nat option"
  recommendations :: "string list option"

section \<open>The network and the API client (lib/api.ts)\<close>

datatype js_exn = TypeError string | SyntaxError string | Error string

fun message :: "js_exn \<Rightarrow> string" where
  "message (TypeError m) = m"
| "message (SyntaxError m) = m"
| "message (Error m) = m"

text \<open>
  A \<open>File\<close>: its name, and the outcome of \<open>file.text()\<close> (the promise resolves with the
  content or rejects).
\<close>

record File =
  name :: string
  file_text :: "js_exn + string"

text \<open>
  The request \<open>evaluateResumeWithATS\<close> sends: the multipart form (\<open>file\<close>,
  \<open>job_description\<close>) and the two headers that vary from call to call, \<open>X-Timestamp\<close>
  (\<open>Date.now()\<close>) and \<open>X-Request-Id\<close> (a string drawn from \<open>Math.random()\<close>). The method
  and the other headers are constants.
\<close>

record request =
  url :: string
  form_file :: File
  form_job_description :: string
  x_timestamp :: int
  x_request_id :: string

text \<open>
  A response is either OK, and then \<open>response.json()\<close> resolves with an \<open>ATSResult\<close> (the
  declared return type; the client does not validate the shape) or rejects; or it is not
  OK, with its status, and then \<open>response.json()\<close> resolves with an object whose
  \<open>detail\<close> property, a string, may be missing, or rejects.
\<close>

datatype response =
    Ok_response "js_exn + ATSResult"
  | Error_response nat "js_exn + string option"

fun ok :: "response \<Rightarrow> bool" where
  "ok (Ok_response _) = True"
| "ok (Error_response _ _) = False"

text \<open>
  Everything outside the client is a parameter: the base URL, the clock, the random
  source and the server. The \<open>k\<close>-th exchange of a session reads \<open>clock k\<close> and
  \<open>random k\<close>, and \<open>respond k\<close> answers it: \<open>fetch\<close> rejects (\<open>Inl\<close>) or resolves with a
  response. The answer may depend on \<open>k\<close>, so a server with state, a flaky network and an
  extraction service that answers differently each time are all instances.
\<close>

record env =
  API_BASE_URL :: string
  clock :: "nat \<Rightarrow> int"
  random :: "nat \<Rightarrow> string"
  respond :: "nat \<Rightarrow> request \<Rightarrow> js_exn + response"

text \<open>The session state: the number of exchanges so far, and the requests sent.\<close>

record world =
  tick :: nat
  sent :: "request list"

definition evaluate_request :: "env \<Rightarrow> world \<Rightarrow> File \<Rightarrow> string \<Rightarrow> request" where
  "evaluate_request e w f jobDescription =
     \<lparr>url = API_BASE_URL e @ ''/api/ats/evaluate-resume'',
      form_file = f,
      form_job_description = jobDescription,
      x_timestamp = clock e (tick w),
      x_request_id = random e (tick w)\<rparr>"

text \<open>
  The \<open>catch\<close> clause of \<open>evaluateResumeWithATS\<close>: a \<open>TypeError\<close> whose message is
  exactly \<open>Failed to fetch\<close> is replaced, every other exception is rethrown.
\<close>

definition rethrow :: "env \<Rightarrow> js_exn \<Rightarrow> js_exn" where
  "rethrow e x =
     (if x = TypeError ''Failed to fetch''
      then Error (''Unable to connect to server. Please ensure the backend is running on ''
                  @ API_BASE_URL e @ ''.'')
      else x)"

text \<open>
  \<open>error.detail || `HTTP error! status: ${response.status}`\<close>, where a rejected
  \<open>response.json()\<close> has been replaced by the empty object.
\<close>

fun error_message :: "nat \<Rightarrow> js_exn + string option \<Rightarrow> string" where
  "error_message st (Inl _) = ''HTTP error! status: '' @ show_nat st"
| "error_message st (Inr detail) = str_or detail (''HTTP error! status: '' @ show_nat st)"

text \<open>
  \<open>ApiClient.evaluateResumeWithATS\<close>. A rejected promise is \<open>Inl\<close>. The \<open>catch\<close> clause sees
  a rejected \<open>fetch\<close> and the \<open>Error\<close> thrown for a response that is not OK; the promise of
  \<open>return response.json()\<close> is not awaited inside the \<open>try\<close>, so its rejection passes
  unchanged.
\<close>

definition evaluateResumeWithATS ::
  "env \<Rightarrow> world \<Rightarrow> File \<Rightarrow> string \<Rightarrow> (js_exn + ATSResult) \<times> world" where
  "evaluateResumeWithATS e w f jobDescription =
     (let req = evaluate_request e w f jobDescription;
          w' = w\<lparr>tick := Suc (tick w), sent := sent w @ [req]\<rparr>
      in (case respond e (tick w) req of
            Inl x \<Rightarrow> Inl (rethrow e x)
          | Inr (Error_response st body) \<Rightarrow> Inl (rethrow e (Error (error_message st body)))
          | Inr (Ok_response parsed) \<Rightarrow> parsed,
          w'))"

text \<open>
  \<open>ApiClient.evaluateBatchWithATS\<close>: the \<open>for\<close> loop over the files, with the array
  \<open>results\<close> and the lines written by \<open>console.error\<close> (the text
  \<open>`Failed to evaluate ${file.name}:`\<close> and the exception) as accumulators. Nothing outside the
  inner \<open>try\<close> can throw, so the outer \<open>catch\<close> is never entered and the promise always
  resolves with \<open>results\<close>.
\<close>

definition failure_line :: "File \<Rightarrow> string" where
  "failure_line f = ''Failed to evaluate '' @ name f @ '':''"

fun evaluateBatch_loop ::
  "env \<Rightarrow> string \<Rightarrow> File list \<Rightarrow> ATSResult list \<Rightarrow> (string \<times> js_exn) list \<Rightarrow> world
     \<Rightarrow> ATSResult list \<times> (string \<times> js_exn) list \<times> world" where
  "evaluateBatch_loop e jobDescription [] results console w = (results, console, w)"
| "evaluateBatch_loop e jobDescription (f # files) results console w =
     (case evaluateResumeWithATS e w f jobDescription of
        (Inr result, w') \<Rightarrow>
          evaluateBatch_loop e jobDescription files (results @ [result]) console w'
      | (Inl x, w') \<Rightarrow>
          evaluateBatch_loop e jobDescription files results
            (console @ [(failure_line f, x)]) w')"

definition evaluateBatchWithATS ::
  "env \<Rightarrow> world \<Rightarrow> File list \<Rightarrow> string
     \<Rightarrow> ATSResult list \<times> (string \<times> js_exn) list \<times> world" where
  "evaluateBatchWithATS e w files jobDescription =
     evaluateBatch_loop e jobDescription files [] [] w"

text \<open>
  The one evaluation the loop makes for the file at position \<open>i\<close> of a batch started in
  world \<open>w\<close>: the loop has made \<open>i\<close> exchanges before it.
\<close>

definition advance :: "env \<Rightarrow> string \<Rightarrow> world \<Rightarrow> File \<Rightarrow> world" where
  "advance e jobDescription w f = snd (evaluateResumeWithATS e w f jobDescription)"

definition successes :: "(js_exn + ATSResult) list \<Rightarrow> ATSResult list" where
  "successes outcomes = concat (map (\<lambda>r. case r of Inl _ \<Rightarrow> [] | Inr a \<Rightarrow> [a]) outcomes)"

fun single_outcomes :: "env \<Rightarrow> string \<Rightarrow> world \<Rightarrow> File list \<Rightarrow> (File \<times> (js_exn + ATSResult)) list" where
  "single_outcomes e jobDescription w [] = []"
| "single_outcomes e jobDescription w (f # files) =
     (f, fst (evaluateResumeWithATS e w f jobDescription))
       # single_outcomes e jobDescription (advance e jobDescription w f) files"

section \<open>The HR dashboard (pages/hr/Dashboard.tsx)\<close>

datatype toast = Toast_error string | Toast_loading string | Toast_success string | Toast_dismiss

record dashboard_state =
  extractedJobDescription :: string
  resumes :: "File list"
  results :: "ScoringResult list"
  loading :: bool

definition nth_opt :: "'a list \<Rightarrow> nat \<Rightarrow> 'a option" where
  "nth_opt xs i = (if i < length xs then Some (xs ! i) else None)"

text \<open>
  The object literal of \<open>handleAnalyze\<close>. \<open>currentIndex\<close> is the position of the result in
  the array the batch returned, and \<open>resumes[currentIndex]\<close> is read from the array of
  uploaded files; \<open>contact_information\<close> is read as a map from its keys, which are
  distinct.
\<close>

definition to_ScoringResult :: "File list \<Rightarrow> nat \<Rightarrow> ATSResult \<Rightarrow> ScoringResult" where
  "to_ScoringResult uploaded currentIndex a =
     (let contact = map_of (contact_information (candidate_profile a));
          resume_name = map_option name (nth_opt uploaded currentIndex)
      in \<lparr>resume_id =
             str_or (contact ''email'')
               (''resume_'' @ show_nat currentIndex @ ''_''
                  @ (case resume_name of None \<Rightarrow> ''undefined'' | Some n \<Rightarrow> n)),
           filename = str_or resume_name (str_or (contact ''filename'') ''Unknown''),
           total_score = Math_round (ats_score a),
           skill_match_score_sr = skill_match_score (score_breakdown a),
           experience_score_sr = experience_score (score_breakdown a),
           education_score = education_match_score (score_breakdown a),
           project_score = None,
           similarity_score = keyword_match_score (score_breakdown a),
           is_shortlisted = (status a = ''SHORTLISTED''),
           matched_skills_sr = matched_skills (score_breakdown a),
           missing_skills_sr = missing_skills (score_breakdown a),
           suggestions = improvement_suggestions a,
           candidate_email = contact ''email'',
           atsResult = Some a,
           rank = None,
           recommendations = None\<rparr>)"

text \<open>
  The conversion loop: \<open>atsResults.indexOf(atsResult)\<close> compares object identities, and
  every element is a freshly parsed object, so it is the element's own position.
\<close>

definition convert_all :: "File list \<Rightarrow> ATSResult list \<Rightarrow> ScoringResult list" where
  "convert_all uploaded atsResults =
     map (\<lambda>(currentIndex, a). to_ScoringResult uploaded currentIndex a)
       (List.enumerate 0 atsResults)"

text \<open>\<open>(a, b) => b.total_score - a.total_score\<close>\<close>

definition by_total_score :: "ScoringResult \<Rightarrow> ScoringResult \<Rightarrow> rat option" where
  "by_total_score a b = Some (of_int (total_score b) - of_int (total_score a))"

text \<open>
  \<open>handleAnalyze\<close>: the new component state, the toasts in order, the lines of
  \<open>console.error\<close>, and the world after the batch. The batch never rejects and the
  conversion reads only fields an \<open>ATSResult\<close> has, so the \<open>catch\<close> clause is not
  entered.
\<close>

definition handleAnalyze ::
  "env \<Rightarrow> world \<Rightarrow> dashboard_state
     \<Rightarrow> dashboard_state \<times> toast list \<times> (string \<times> js_exn) list \<times> world" where
  "handleAnalyze e w st =
     (if extractedJobDescription st = []
      then (st, [Toast_error ''Please upload a job description file first''], [], w)
      else if resumes st = []
      then (st, [Toast_error ''Please upload at least one resume''], [], w)
      else
        (case evaluateBatchWithATS e w (resumes st) (extractedJobDescription st) of
           (atsResults, console, w') \<Rightarrow>
             (let analysisResults =
                    js_sort by_total_score (convert_all (resumes st) atsResults)
              in (st\<lparr>results := analysisResults, loading := False\<rparr>,
                  [Toast_loading (''Analyzing '' @ show_nat (length (resumes st))
                                    @ '' resumes with ATS evaluation...''),
                   Toast_success (''Successfully analyzed '' @ show_nat (length analysisResults)
                                    @ '' resumes with professional ATS evaluation!''),
                   Toast_dismiss],
                  console, w'))))"

text \<open>
  Rendering. \<open>ScoringResult\<close> declares no property \<open>score\<close> and \<open>handleAnalyze\<close> assigns
  none, so \<open>a.score\<close> reads as \<open>undefined\<close> in
  \<^verbatim>\<open>const sortedResults = [...results].sort((a, b) => b.score - a.score);\<close>
\<close>

definition score :: "ScoringResult \<Rightarrow> rat option" where
  "score r = None"

definition sortedResults :: "dashboard_state \<Rightarrow> ScoringResult list" where
  "sortedResults st = js_sort (\<lambda>a b. js_sub (score b) (score a)) (results st)"

text \<open>\<open>sortedResults.filter(r => r.total_score >= 70).length\<close>, shown as "shortlisted".\<close>

definition shortlisted_count :: "dashboard_state \<Rightarrow> nat" where
  "shortlisted_count st = length (filter (\<lambda>r. 70 \<le> total_score r) (sortedResults st))"

definition isShortlisted :: "ScoringResult \<Rightarrow> bool" where
  "isShortlisted r = (is_shortlisted r \<or> 80 \<le> total_score r)"

definition isGoodCandidate :: "ScoringResult \<Rightarrow> bool" where
  "isGoodCandidate r = (60 \<le> total_score r)"

definition status_label :: "ScoringResult \<Rightarrow> string" where
  "status_label r =
     str_or (map_option status (atsResult r))
       (if isShortlisted r then ''SHORTLISTED'' else ''UNDER REVIEW'')"

section \<open>The score breakdown rows\<close>

text \<open>
  The rows (label, score, weight label) of the breakdown card, on the results page
  (pages/Results.tsx) and on the evaluation page (\<open>ATSEvaluationPage\<close>). The score of
  the sixth row is computed in the page: the sum of two fields, halved, and on the
  results page rounded by \<open>Math.round\<close>.
\<close>

definition breakdown_rows_Results :: "ATSScoreBreakdown \<Rightarrow> (string \<times> jsnum \<times> string) list" where
  "breakdown_rows_Results scoreBreakdown =
     [(''Skills Match'', Fin (skill_match_score scoreBreakdown), ''40%''),
      (''Experience Match'', Fin (experience_score scoreBreakdown), ''25%''),
      (''Role Fit'', Fin (role_fit_score scoreBreakdown), ''15%''),
      (''Education Match'', Fin (education_match_score scoreBreakdown), ''10%''),
      (''Certifications'', Fin (certifications_score scoreBreakdown), ''5%''),
      (''Keywords & Tools'',
         Math_round_js (js_half (js_add (keyword_match_score scoreBreakdown)
                                        (tech_stack_match_score scoreBreakdown))),
         ''5%'')]"

definition breakdown_rows_ATSEvaluationPage ::
  "ATSScoreBreakdown \<Rightarrow> (string \<times> jsnum \<times> string) list" where
  "breakdown_rows_ATSEvaluationPage scoreBreakdown =
     [(''Skills Match'', Fin (skill_match_score scoreBreakdown), ''40%''),
      (''Experience Match'', Fin (experience_score scoreBreakdown), ''25%''),
      (''Role Fit'', Fin (role_fit_score scoreBreakdown), ''15%''),
      (''Education Match'', Fin (education_match_score scoreBreakdown), ''10%''),
      (''Certifications'', Fin (certifications_score scoreBreakdown), ''5%''),
      (''Keywords & Tools'',
         js_half (js_add (keyword_match_score scoreBreakdown)
                         (tech_stack_match_score scoreBreakdown)),
         ''5%'')]"

definition keywords_tools_row :: "(string \<times> jsnum \<times> string) list \<Rightarrow> jsnum" where
  "keywords_tools_row rows = fst (snd (rows ! 5))"

text \<open>
  What the results page prints for a row: \<open>{Math.round(item.score)}%\<close>.
\<close>

definition displayed_Results :: "jsnum \<Rightarrow> jsnum" where
  "displayed_Results item_score = Math_round_js item_score"

text \<open>
  What the evaluation page prints for a row: \<open>{item.score.toFixed(1)}%\<close>; the progress
  bar receives \<open>item.score\<close> itself. \<open>toFixed(1)\<close> of a finite \<open>x\<close> takes the integer
  \<open>n\<close> for which \<open>n / 10\<close> is nearest to the magnitude of \<open>x\<close>, the larger one on a
  tie, and prints its digits with a point before the last, after a minus sign when \<open>x\<close>
  is negative. From the magnitude \<open>10 ^ 21\<close> on it prints the exponential notation of
  \<open>x\<close>, which is not modelled (\<open>None\<close>).
\<close>

definition tenths :: "rat \<Rightarrow> nat" where
  "tenths x = nat \<lfloor>10 * \<bar>x\<bar> + 1 / 2\<rfloor>"

fun toFixed1 :: "jsnum \<Rightarrow> string option" where
  "toFixed1 NaN = Some ''NaN''"
| "toFixed1 PosInf = Some ''Infinity''"
| "toFixed1 NegInf = Some ''-Infinity''"
| "toFixed1 (Fin x) =
     (if 10 ^ 21 \<le> \<bar>x\<bar> then None
      else Some ((if x < 0 then ''-'' else [])
                 @ show_nat (tenths x div 10) @ ''.'' @ show_nat (tenths x mod 10)))"

definition displayed_ATSEvaluationPage :: "jsnum \<Rightarrow> string option" where
  "displayed_ATSEvaluationPage item_score = toFixed1 item_score"

text \<open>The results page hands \<open>Math.round(realScore)\<close> to the gauge.\<close>

definition gauge_of_result :: "ATSResult \<Rightarrow> jsnum" where
  "gauge_of_result a = validScore (Fin (of_int (Math_round (ats_score a))))"

section \<open>The candidate page (\<open>Index.handleScreening\<close>)\<close>

text \<open>
  Strings are lists of characters. \<open>trim\<close> removes the ASCII white space at both ends
  (the white space of JavaScript beyond ASCII is not represented), and \<open>toLowerCase\<close>
  maps the ASCII capitals.
\<close>

definition is_js_space :: "char \<Rightarrow> bool" where
  "is_js_space c = (c \<in> set [CHR '' '', CHR 0x09, CHR 0x0A, CHR 0x0B, CHR 0x0C, CHR 0x0D])"

definition trim :: "string \<Rightarrow> string" where
  "trim s = rev (dropWhile is_js_space (rev (dropWhile is_js_space s)))"

definition toLowerCase :: "string \<Rightarrow> string" where
  "toLowerCase s =
     map (\<lambda>c. case map_of (zip ''ABCDEFGHIJKLMNOPQRSTUVWXYZ'' ''abcdefghijklmnopqrstuvwxyz'') c of
                 None \<Rightarrow> c | Some l \<Rightarrow> l) s"

fun starts_with :: "string \<Rightarrow> string \<Rightarrow> bool" where
  "starts_with s [] = True"
| "starts_with [] (c # cs) = False"
| "starts_with (d # ds) (c # cs) = (d = c \<and> starts_with ds cs)"

fun includes_str :: "string \<Rightarrow> string \<Rightarrow> bool" where
  "includes_str [] sub = (sub = [])"
| "includes_str (d # ds) sub = (starts_with (d # ds) sub \<or> includes_str ds sub)"

record index_state =
  resumeFile :: "File option"
  jobDescFile :: "File option"
  jobDescText :: string
  isAnalyzing :: bool

text \<open>
  The state handed to the results page. Its field \<open>atsResult\<close> carries the suffix \<open>_nav\<close>
  (the name is taken by \<open>ScoringResult\<close>).
\<close>

record navigation_state =
  atsResult_nav :: ATSResult
  candidateProfile :: ATSCandidateProfile
  scoreBreakdown :: ATSScoreBreakdown
  professionalSummary :: string
  finalRecommendation :: string
  keywordsToAdd :: "string list"
  timestamp :: int
  uploadId :: string

datatype ui_event = Toast toast | Navigate string navigation_state

definition hasJobDescription :: "index_state \<Rightarrow> bool" where
  "hasJobDescription st = (\<not> (trim (jobDescText st) = [] \<and> jobDescFile st = None))"

text \<open>
  \<open>finalJobDescription\<close>: the trimmed text, or, when that is empty and a file was given,
  the text of the file as read (not trimmed); a failed read throws.
\<close>

definition finalJobDescription :: "index_state \<Rightarrow> js_exn + string" where
  "finalJobDescription st =
     (if trim (jobDescText st) = []
      then (case jobDescFile st of
              None \<Rightarrow> Inr (trim (jobDescText st))
            | Some jf \<Rightarrow>
                (case file_text jf of
                   Inl _ \<Rightarrow> Inl (Error ''Failed to read job description file'')
                 | Inr t \<Rightarrow> Inr t))
      else Inr (trim (jobDescText st)))"

definition isDummyData :: "ATSResult \<Rightarrow> bool" where
  "isDummyData a =
     (includes_str (toLowerCase (professional_summary a)) ''dummy'' \<or>
      includes_str (toLowerCase (professional_summary a)) ''sample'' \<or>
      includes_str (toLowerCase (professional_summary a)) ''placeholder'' \<or>
      includes_str (toLowerCase (candidate_summary (candidate_profile a))) ''dummy'')"

text \<open>The \<open>catch\<close> and \<open>finally\<close> clauses of \<open>handleScreening\<close>.\<close>

definition screening_failed ::
  "index_state \<Rightarrow> js_exn \<Rightarrow> world \<Rightarrow> index_state \<times> ui_event list \<times> world" where
  "screening_failed st x w = (st\<lparr>isAnalyzing := False\<rparr>, [Toast (Toast_error (message x))], w)"

text \<open>
  \<open>handleScreening\<close>: the new component state, the toasts and navigations in order, and
  the world, whose \<open>sent\<close> lists the requests made. After a successful evaluation the
  navigation state draws \<open>Date.now()\<close> and \<open>Math.random()\<close> once more. \<open>navigate\<close> is
  taken not to throw, and console output is not modelled.
\<close>

definition handleScreening ::
  "env \<Rightarrow> world \<Rightarrow> index_state \<Rightarrow> index_state \<times> ui_event list \<times> world" where
  "handleScreening e w st =
     (case resumeFile st of
        None \<Rightarrow>
          (st, [Toast (Toast_error
             ''Please upload a resume and provide a job description (either as text or file).'')], w)
      | Some rf \<Rightarrow>
          if \<not> hasJobDescription st
          then (st, [Toast (Toast_error
             ''Please upload a resume and provide a job description (either as text or file).'')], w)
          else
            (case finalJobDescription st of
               Inl x \<Rightarrow> screening_failed st x w
             | Inr jd \<Rightarrow>
                 if length jd < 50
                 then screening_failed st
                        (Error ''Job description must be at least 50 characters long'') w
                 else
                   (case evaluateResumeWithATS e w rf jd of
                      (Inl x, w') \<Rightarrow> screening_failed st x w'
                    | (Inr a, w') \<Rightarrow>
                        (\<lparr>resumeFile = None, jobDescFile = None, jobDescText = [],
                          isAnalyzing = False\<rparr>,
                         (if isDummyData a
                          then [Toast (Toast_error
                            ''Warning: Dummy data detected. Backend may not be processing correctly.'')]
                          else [])
                         @ [Navigate ''/results''
                              \<lparr>atsResult_nav = a,
                               candidateProfile = candidate_profile a,
                               scoreBreakdown = score_breakdown a,
                               professionalSummary = professional_summary a,
                               finalRecommendation = final_recommendation a,
                               keywordsToAdd = keywords_to_add a,
                               timestamp = clock e (tick w'),
                               uploadId = random e (tick w')\<rparr>],
                         w'\<lparr>tick := Suc (tick w')\<rparr>))))"

section \<open>The backend, as far as the specification describes it\<close>

text \<open>
  Modelled from the spec: the Scoring Aggregator of the backend (the function \<open>score\<close> of
  section 4.1, steps 6 and 7, with the weight table of section 3) is not among the
  sources; only its callers are. The final score is the weighted sum of the six
  sub-scores, clamped to the interval from 0 to 100; the sixth sub-score is the average of
  the keyword and the tool overlap scores.
\<close>

definition keywords_tools_score :: "ATSScoreBreakdown \<Rightarrow> rat" where
  "keywords_tools_score b = (keyword_match_score b + tech_stack_match_score b) / 2"

definition sub_scores :: "ATSScoreBreakdown \<Rightarrow> rat list" where
  "sub_scores b =
     [skill_match_score b, experience_score b, role_fit_score b,
      education_match_score b, certifications_score b, keywords_tools_score b]"

definition weights :: "rat list" where
  "weights = [40 / 100, 25 / 100, 15 / 100, 10 / 100, 5 / 100, 5 / 100]"

definition weighted_sum :: "ATSScoreBreakdown \<Rightarrow> rat" where
  "weighted_sum b = sum_list (map (\<lambda>(s, wt). s * wt) (zip (sub_scores b) weights))"

definition final_score :: "ATSScoreBreakdown \<Rightarrow> rat" where
  "final_score b = max 0 (min 100 (weighted_sum b))"

text \<open>
  Modelled from the spec: the data model of section 3 keeps each of the seven numeric
  fields of a score breakdown between 0 and 100.
\<close>

definition in_range :: "rat \<Rightarrow> bool" where
  "in_range x = (0 \<le> x \<and> x \<le> 100)"

definition sub_scores_in_range :: "ATSScoreBreakdown \<Rightarrow> bool" where
  "sub_scores_in_range b =
     (in_range (skill_match_score b) \<and> in_range (experience_score b) \<and>
      in_range (role_fit_score b) \<and> in_range (education_match_score b) \<and>
      in_range (certifications_score b) \<and> in_range (keyword_match_score b) \<and>
      in_range (tech_stack_match_score b))"

text \<open>
  Modelled from the spec: the status bands of step 8 of section 4.1, with the status
  strings the front end compares against and the startup guide lists. The dash of the
  middle status is an en dash, written here by its three UTF-8 bytes.
\<close>

definition en_dash :: string where
  "en_dash = [CHR 0xE2, CHR 0x80, CHR 0x93]"

definition status_of :: "rat \<Rightarrow> string" where
  "status_of final =
     (if 80 \<le> final then ''SHORTLISTED''
      else if 50 \<le> final then ''BORDERLINE '' @ en_dash @ '' NEEDS IMPROVEMENT''
      else ''NOT SHORTLISTED'')"

text \<open>
  The predicate the claims about a failed call speak of: \<open>fetch\<close> rejected, or the
  response is not OK.
\<close>

definition call_fails :: "env \<Rightarrow> world \<Rightarrow> File \<Rightarrow> string \<Rightarrow> bool" where
  "call_fails e w f jobDescription =
     (case respond e (tick w) (evaluate_request e w f jobDescription) of
        Inl _ \<Rightarrow> True
      | Inr r \<Rightarrow> \<not> ok r)"

text \<open>What the batch writes with \<open>console.error\<close> for the evaluations that failed.\<close>

definition failures :: "(File \<times> (js_exn + ATSResult)) list \<Rightarrow> (string \<times> js_exn) list" where
  "failures outcomes =
     concat (map (\<lambda>(f, r). case r of
                               Inl x \<Rightarrow> [(failure_line f, x)]
                             | Inr _ \<Rightarrow> []) outcomes)"

text \<open>The scores the recruiter's list stands for, in the order presented.\<close>

definition ats_scores :: "ScoringResult list \<Rightarrow> rat list" where
  "ats_scores rs = map ats_score (List.map_filter atsResult rs)"

section \<open>Example data\<close>

definition example_profile :: ATSCandidateProfile where
  "example_profile =
     \<lparr>candidate_summary = [], total_experience = 3, relevant_experience = 3,
      technical_skills = [''React'', ''JavaScript''], soft_skills = [],
      tools_technologies = [], certifications = [], education_details = [],
      job_titles = [], projects_responsibilities = [], achievements_awards = [],
      domain_experience = [], contact_information = [], resume_keywords = [],
      seniority_level = ''Mid''\<rparr>"

definition example_job :: ATSJobProfile where
  "example_job =
     \<lparr>mandatory_skills = [''React'', ''TypeScript''], good_to_have_skills = [],
      required_experience = 3, required_tools_technologies = [],
      role_responsibilities = [], education_requirements = [],
      preferred_certifications = [], required_industry_domain = [],
      relevant_keywords = []\<rparr>"

definition example_breakdown :: "rat \<Rightarrow> rat \<Rightarrow> ATSScoreBreakdown" where
  "example_breakdown kw ts =
     \<lparr>skill_match_score = 100, experience_score = 100, keyword_match_score = kw,
      education_match_score = 100, certifications_score = 100, role_fit_score = 100,
      tech_stack_match_score = ts,
      matched_skills = [''React''], missing_skills = [''TypeScript''],
      matched_tools = [], missing_tools = [], matched_keywords = [],
      missing_keywords = [], matched_certifications = [], missing_certifications = []\<rparr>"

definition example_result :: "rat \<Rightarrow> ATSResult" where
  "example_result s =
     \<lparr>ats_score = s, status = status_of s,
      score_breakdown = example_breakdown 100 100,
      candidate_profile = example_profile, job_profile = example_job,
      professional_summary = [], improvement_suggestions = [], keywords_to_add = [],
      final_recommendation = []\<rparr>"

text \<open>
  An example server: it answers by the name of the uploaded file alone. Three files are
  scored, \<open>down.pdf\<close> finds the service unreachable, any other file gets a 500.
\<close>

definition example_scores :: "(string \<times> rat) list" where
  "example_scores = [(''a.pdf'', 398 / 5), (''b.pdf'', 402 / 5), (''c.pdf'', 75)]"

definition example_respond :: "nat \<Rightarrow> request \<Rightarrow> js_exn + response" where
  "example_respond k r =
     (case map_of example_scores (name (form_file r)) of
        Some s \<Rightarrow> Inr (Ok_response (Inr (example_result s)))
      | None \<Rightarrow>
          if name (form_file r) = ''down.pdf'' then Inl (TypeError ''Failed to fetch'')
          else Inr (Error_response 500 (Inr None)))"

definition example_env :: env where
  "example_env =
     \<lparr>API_BASE_URL = ''http://localhost:8000'',
      clock = (\<lambda>k. 1764000000000 + int k),
      random = show_nat,
      respond = example_respond\<rparr>"

definition example_file :: "string \<Rightarrow> File" where
  "example_file n = \<lparr>name = n, file_text = Inr []\<rparr>"

definition example_world :: "nat \<Rightarrow> world" where
  "example_world k = \<lparr>tick = k, sent = []\<rparr>"

definition example_jd :: string where
  "example_jd = ''Senior Software Engineer with 5+ years of React and TypeScript.''"

definition example_dashboard :: "string list \<Rightarrow> dashboard_state" where
  "example_dashboard names =
     \<lparr>extractedJobDescription = example_jd, resumes = map example_file names,
      results = [], loading = False\<rparr>"

definition example_index :: "string \<Rightarrow> index_state" where
  "example_index jd =
     \<lparr>resumeFile = Some (example_file ''c.pdf''), jobDescFile = None,
      jobDescText = jd, isAnalyzing = False\<rparr>"

section \<open>Auxiliary facts\<close>

lemma Math_round_close: "\<bar>of_int (Math_round x) - x\<bar> \<le> 1 / 2"
  unfolding Math_round_def by linarith

lemma js_insert_by_total_score:
  "js_insert by_total_score x ys = insort_key (\<lambda>r. - total_score r) x ys"
  by (induction ys) (simp_all add: SortCompare_def by_total_score_def)

lemma js_sort_by_total_score:
  "js_sort by_total_score xs = sort_key (\<lambda>r. - total_score r) xs"
  by (induction xs) (simp_all add: js_insert_by_total_score)

lemma js_insert_NaN: "js_insert (\<lambda>a b. None) x ys = x # ys"
  by (cases ys) (simp_all add: SortCompare_def)

lemma js_sort_NaN: "js_sort (\<lambda>a b. None) xs = xs"
  by (induction xs) (simp_all add: js_insert_NaN)

lemma sortedResults_unchanged: "sortedResults st = results st"
  by (simp add: sortedResults_def score_def js_sort_NaN)

lemma successes_simps:
  "successes [] = []"
  "successes (Inl x # rs) = successes rs"
  "successes (Inr a # rs) = a # successes rs"
  by (simp_all add: successes_def)

lemma failures_simps:
  "failures [] = []"
  "failures ((f, Inl x) # outs) = (failure_line f, x) # failures outs"
  "failures ((f, Inr a) # outs) = failures outs"
  by (simp_all add: failures_def)

lemma evaluateBatch_loop_outcomes:
  "evaluateBatch_loop e jd files rs cs w =
     (rs @ successes (map snd (single_outcomes e jd w files)),
      cs @ failures (single_outcomes e jd w files),
      foldl (advance e jd) w files)"
proof (induction files arbitrary: rs cs w)
  case Nil
  show ?case by (simp add: successes_simps failures_simps)
next
  case (Cons f files)
  obtain r w' where ev: "evaluateResumeWithATS e w f jd = (r, w')"
    by (cases "evaluateResumeWithATS e w f jd")
  then have adv: "advance e jd w f = w'"
    by (simp add: advance_def)
  show ?case
  proof (cases r)
    case (Inl x)
    with ev adv Cons.IH show ?thesis
      by (simp add: successes_simps failures_simps)
  next
    case (Inr a)
    with ev adv Cons.IH show ?thesis
      by (simp add: successes_simps failures_simps)
  qed
qed

lemma length_single_outcomes: "length (single_outcomes e jd w files) = length files"
  by (induction files arbitrary: w) simp_all

lemma successes_failures_length:
  "length (successes (map snd outs)) + length (failures outs) = length outs"
proof (induction outs)
  case Nil
  show ?case by (simp add: successes_simps failures_simps)
next
  case (Cons p outs)
  obtain f r where p: "p = (f, r)" by (cases p)
  show ?case using Cons.IH p
    by (cases r) (simp_all add: successes_simps failures_simps)
qed

lemma tick_advance: "tick (advance e jd w f) = Suc (tick w)"
  by (simp add: advance_def evaluateResumeWithATS_def Let_def)

lemma tick_foldl_advance: "tick (foldl (advance e jd) w files) = tick w + length files"
  by (induction files arbitrary: w) (simp_all add: tick_advance)

lemma weighted_sum_expand:
  "weighted_sum b =
     40 / 100 * skill_match_score b + 25 / 100 * experience_score b
     + 15 / 100 * role_fit_score b + 10 / 100 * education_match_score b
     + 5 / 100 * certifications_score b + 5 / 100 * keywords_tools_score b"
  by (simp add: weighted_sum_def sub_scores_def weights_def)

lemma weighted_range_arith:
  fixes a b c d e k t :: rat
  assumes "0 \<le> a" "a \<le> 100" "0 \<le> b" "b \<le> 100" "0 \<le> c" "c \<le> 100"
    "0 \<le> d" "d \<le> 100" "0 \<le> e" "e \<le> 100" "0 \<le> k" "k \<le> 100" "0 \<le> t" "t \<le> 100"
  shows "0 \<le> 40 / 100 * a + 25 / 100 * b + 15 / 100 * c + 10 / 100 * d + 5 / 100 * e
              + 5 / 100 * ((k + t) / 2) \<and>
         40 / 100 * a + 25 / 100 * b + 15 / 100 * c + 10 / 100 * d + 5 / 100 * e
              + 5 / 100 * ((k + t) / 2) \<le> 100"
proof -
  have lo: "0 \<le> 40 / 100 * a" "0 \<le> 25 / 100 * b" "0 \<le> 15 / 100 * c"
    "0 \<le> 10 / 100 * d" "0 \<le> 5 / 100 * e" "0 \<le> 5 / 100 * ((k + t) / 2)"
    using assms by simp_all
  have hi: "40 / 100 * a \<le> 40" "25 / 100 * b \<le> 25" "15 / 100 * c \<le> 15"
    "10 / 100 * d \<le> 10" "5 / 100 * e \<le> 5" "5 / 100 * ((k + t) / 2) \<le> 5"
    using assms by simp_all
  show ?thesis
    using lo hi by linarith
qed

lemma weighted_sum_in_range:
  assumes "sub_scores_in_range b"
  shows "0 \<le> weighted_sum b \<and> weighted_sum b \<le> 100"
  using assms
  unfolding weighted_sum_expand sub_scores_in_range_def in_range_def keywords_tools_score_def
  by (intro weighted_range_arith) simp_all

lemma rethrow_Error: "rethrow e (Error m) = Error m"
  by (simp add: rethrow_def)

lemma evaluateBatchWithATS_outcomes:
  "evaluateBatchWithATS e w files jd =
     (successes (map snd (single_outcomes e jd w files)),
      failures (single_outcomes e jd w files),
      foldl (advance e jd) w files)"
  by (simp add: evaluateBatchWithATS_def evaluateBatch_loop_outcomes)

lemma example_scored:
  "fst (evaluateResumeWithATS example_env w (example_file ''a.pdf'') jd)
     = Inr (example_result (398 / 5))"
  "fst (evaluateResumeWithATS example_env w (example_file ''b.pdf'') jd)
     = Inr (example_result (402 / 5))"
  "fst (evaluateResumeWithATS example_env w (example_file ''c.pdf'') jd)
     = Inr (example_result 75)"
  by (simp_all add: evaluateResumeWithATS_def Let_def example_env_def example_respond_def
        evaluate_request_def example_file_def example_scores_def)

lemma example_down:
  "fst (evaluateResumeWithATS example_env w (example_file ''down.pdf'') jd)
   = Inl (Error ''Unable to connect to server. Please ensure the backend is running on http://localhost:8000.'')"
  by (simp add: evaluateResumeWithATS_def Let_def example_env_def example_respond_def
        evaluate_request_def example_file_def example_scores_def rethrow_def)

lemma map_enumerate_snd: "map (\<lambda>(i, a). g a) (List.enumerate n xs) = map g xs"
  by (induction xs arbitrary: n) simp_all

lemma to_ScoringResult_simps:
  "total_score (to_ScoringResult uploaded i a) = Math_round (ats_score a)"
  "atsResult (to_ScoringResult uploaded i a) = Some a"
  "is_shortlisted (to_ScoringResult uploaded i a) = (status a = ''SHORTLISTED'')"
  "filename (to_ScoringResult uploaded i a)
     = str_or (map_option name (nth_opt uploaded i))
         (str_or (map_of (contact_information (candidate_profile a)) ''filename'') ''Unknown'')"
  by (simp_all add: to_ScoringResult_def Let_def)

lemma total_score_convert_all:
  "map total_score (convert_all uploaded rs) = map (\<lambda>a. Math_round (ats_score a)) rs"
proof -
  have "map total_score (convert_all uploaded rs)
        = map (\<lambda>(i, a). Math_round (ats_score a)) (List.enumerate 0 rs)"
    by (simp add: convert_all_def to_ScoringResult_simps case_prod_beta comp_def)
  then show ?thesis
    by (simp only: map_enumerate_snd)
qed

lemma atsResult_convert_all:
  "map atsResult (convert_all uploaded rs) = map Some rs"
proof -
  have "map atsResult (convert_all uploaded rs) = map (\<lambda>(i, a). Some a) (List.enumerate 0 rs)"
    by (simp add: convert_all_def to_ScoringResult_simps case_prod_beta comp_def)
  then show ?thesis
    by (simp only: map_enumerate_snd)
qed

lemma map_filter_of_Some: "map g xs = map Some ys \<Longrightarrow> List.map_filter g xs = ys"
proof (induction xs arbitrary: ys)
  case Nil
  then show ?case by simp
next
  case (Cons x xs)
  then obtain y ys' where "ys = y # ys'" by (cases ys) auto
  with Cons show ?case by simp
qed

lemma handleAnalyze_results:
  assumes "extractedJobDescription st \<noteq> []" "resumes st \<noteq> []"
  shows "results (fst (handleAnalyze e w st))
         = sort_key (\<lambda>r. - total_score r)
             (convert_all (resumes st)
                (fst (evaluateBatchWithATS e w (resumes st) (extractedJobDescription st))))"
  using assms
  by (simp add: handleAnalyze_def js_sort_by_total_score Let_def split: prod.splits)

lemma example_jd_nonempty: "example_jd \<noteq> []"
  by (simp add: example_jd_def)

lemma Math_round_examples:
  "Math_round (398 / 5) = 80" "Math_round (402 / 5) = 80" "Math_round 75 = 75"
  unfolding Math_round_def by linarith+

lemma example_result_simps:
  "ats_score (example_result s) = s"
  "status (example_result s) = status_of s"
  "contact_information (candidate_profile (example_result s)) = []"
  by (simp_all add: example_result_def example_profile_def)

lemma convert_all_two:
  "convert_all uploaded [a, b] = [to_ScoringResult uploaded 0 a, to_ScoringResult uploaded 1 b]"
  by (simp add: convert_all_def)

lemma convert_all_one:
  "convert_all uploaded [a] = [to_ScoringResult uploaded 0 a]"
  by (simp add: convert_all_def)

lemma example_batch_ab:
  "fst (evaluateBatchWithATS example_env w [example_file ''a.pdf'', example_file ''b.pdf''] jd)
     = [example_result (398 / 5), example_result (402 / 5)]"
  by (simp add: evaluateBatchWithATS_outcomes example_scored successes_simps)

lemma example_batch_c:
  "fst (evaluateBatchWithATS example_env w [example_file ''c.pdf''] jd) = [example_result 75]"
  by (simp add: evaluateBatchWithATS_outcomes example_scored successes_simps)

lemma example_dashboard_simps:
  "extractedJobDescription (example_dashboard names) = example_jd"
  "resumes (example_dashboard names) = map example_file names"
  by (simp_all add: example_dashboard_def)

lemma example_ranking_ab:
  "sortedResults (fst (handleAnalyze example_env (example_world 0)
                         (example_dashboard [''a.pdf'', ''b.pdf''])))
   = [to_ScoringResult [example_file ''a.pdf'', example_file ''b.pdf''] 0 (example_result (398 / 5)),
      to_ScoringResult [example_file ''a.pdf'', example_file ''b.pdf''] 1 (example_result (402 / 5))]"
proof -
  have "sortedResults (fst (handleAnalyze example_env (example_world 0)
                         (example_dashboard [''a.pdf'', ''b.pdf''])))
        = sort_key (\<lambda>r. - total_score r)
            (convert_all [example_file ''a.pdf'', example_file ''b.pdf'']
               [example_result (398 / 5), example_result (402 / 5)])"
    using handleAnalyze_results[of "example_dashboard [''a.pdf'', ''b.pdf'']" example_env
        "example_world 0"]
    by (simp add: sortedResults_unchanged example_dashboard_simps example_jd_nonempty
          example_batch_ab)
  then show ?thesis
    by (simp add: convert_all_two to_ScoringResult_simps example_result_simps
          Math_round_examples)
qed

lemma example_ats_scores_ab:
  "ats_scores (sortedResults (fst (handleAnalyze example_env (example_world 0)
                                    (example_dashboard [''a.pdf'', ''b.pdf'']))))
   = [398 / 5, 402 / 5]"
  by (simp add: example_ranking_ab ats_scores_def to_ScoringResult_simps example_result_simps)

lemma example_ranking_c:
  "sortedResults (fst (handleAnalyze example_env (example_world 0) (example_dashboard [''c.pdf''])))
   = [to_ScoringResult [example_file ''c.pdf''] 0 (example_result 75)]"
proof -
  have "sortedResults (fst (handleAnalyze example_env (example_world 0)
                         (example_dashboard [''c.pdf''])))
        = sort_key (\<lambda>r. - total_score r)
            (convert_all [example_file ''c.pdf''] [example_result 75])"
    using handleAnalyze_results[of "example_dashboard [''c.pdf'']" example_env "example_world 0"]
    by (simp add: sortedResults_unchanged example_dashboard_simps example_jd_nonempty
          example_batch_c)
  then show ?thesis
    by (simp add: convert_all_one)
qed

lemma status_of_75: "status_of 75 = ''BORDERLINE '' @ en_dash @ '' NEEDS IMPROVEMENT''"
  by (simp add: status_of_def)

lemma status_of_75_not_shortlisted: "status_of 75 \<noteq> ''SHORTLISTED''"
  by (simp add: status_of_def en_dash_def)

lemma evaluateResumeWithATS_world:
  "snd (evaluateResumeWithATS e w f jd)
   = w\<lparr>tick := Suc (tick w), sent := sent w @ [evaluate_request e w f jd]\<rparr>"
  by (simp add: evaluateResumeWithATS_def Let_def)

lemma example_trim_short: "trim ''  too short  '' = ''too short''"
  by (simp add: trim_def is_js_space_def)

lemma example_trim_jd: "trim example_jd = example_jd"
  by (simp add: trim_def is_js_space_def example_jd_def)

lemma example_index_simps:
  "resumeFile (example_index t) = Some (example_file ''c.pdf'')"
  "jobDescFile (example_index t) = None"
  "jobDescText (example_index t) = t"
  by (simp_all add: example_index_def)

text \<open>Double arithmetic: the exponent is the right one, and rounding errs by half a spacing at most.\<close>

lemma powi_less_cancel:
  assumes "(2::rat) powi a < 2 powi b"
  shows "a < b"
proof (rule ccontr)
  assume "\<not> a < b"
  then have "b \<le> a" by simp
  then have "(2::rat) powi b \<le> 2 powi a"
    by (intro power_int_increasing) simp_all
  with assms show False by simp
qed

lemma ilog2_bounds:
  assumes "0 < x"
  shows "2 powi (ilog2 x) \<le> x \<and> x < 2 powi (ilog2 x + 1)"
proof -
  define p where "p = fst (quotient_of x)"
  define q where "q = snd (quotient_of x)"
  have pq: "quotient_of x = (p, q)"
    by (simp add: p_def q_def)
  have q: "0 < q"
    using pq by (rule quotient_of_denom_pos)
  have x: "x = of_int p / of_int q"
    using pq by (rule quotient_of_div)
  have p: "0 < p"
    using assms q x by (simp add: zero_less_divide_iff)
  have bp: "2 ^ nat (bitlen p - 1) \<le> p \<and> p < 2 ^ nat (bitlen p)"
    using p by (rule bitlen_bounds)
  have bq: "2 ^ nat (bitlen q - 1) \<le> q \<and> q < 2 ^ nat (bitlen q)"
    using q by (rule bitlen_bounds)
  have ap: "1 \<le> bitlen p"
    using p bitlen_eq_zero_iff[of p] bitlen_nonneg[of p] by linarith
  have aq: "1 \<le> bitlen q"
    using q bitlen_eq_zero_iff[of q] bitlen_nonneg[of q] by linarith
  have p_lo: "(2::rat) powi (bitlen p - 1) \<le> of_int p"
  proof -
    have "(of_int (2 ^ nat (bitlen p - 1)) :: rat) \<le> of_int p"
      using bp by (simp only: of_int_le_iff)
    moreover have "(2::rat) powi (bitlen p - 1) = 2 ^ nat (bitlen p - 1)"
      using ap by (simp add: power_int_def)
    ultimately show ?thesis by simp
  qed
  have p_hi: "of_int p < (2::rat) powi (bitlen p)"
  proof -
    have "(of_int p :: rat) < of_int (2 ^ nat (bitlen p))"
      using bp by (simp only: of_int_less_iff)
    moreover have "(2::rat) powi (bitlen p) = 2 ^ nat (bitlen p)"
      using ap by (simp add: power_int_def)
    ultimately show ?thesis by simp
  qed
  have q_lo: "(2::rat) powi (bitlen q - 1) \<le> of_int q"
  proof -
    have "(of_int (2 ^ nat (bitlen q - 1)) :: rat) \<le> of_int q"
      using bq by (simp only: of_int_le_iff)
    moreover have "(2::rat) powi (bitlen q - 1) = 2 ^ nat (bitlen q - 1)"
      using aq by (simp add: power_int_def)
    ultimately show ?thesis by simp
  qed
  have q_hi: "of_int q < (2::rat) powi (bitlen q)"
  proof -
    have "(of_int q :: rat) < of_int (2 ^ nat (bitlen q))"
      using bq by (simp only: of_int_less_iff)
    moreover have "(2::rat) powi (bitlen q) = 2 ^ nat (bitlen q)"
      using aq by (simp add: power_int_def)
    ultimately show ?thesis by simp
  qed
  define d where "d = bitlen p - bitlen q"
  have qr: "(0::rat) < of_int q" using q by simp
  have lo: "2 powi (d - 1) < x"
  proof -
    have "(2::rat) powi (d - 1) * of_int q < 2 powi (d - 1) * 2 powi (bitlen q)"
      using q_hi by (intro mult_strict_left_mono) simp_all
    also have "\<dots> = 2 powi (bitlen p - 1)"
      by (simp add: d_def power_int_add[symmetric])
    also have "\<dots> \<le> of_int p" by (rule p_lo)
    finally show ?thesis
      using qr by (simp add: x pos_less_divide_eq)
  qed
  have hi: "x < 2 powi (d + 1)"
  proof -
    have "of_int p < (2::rat) powi (bitlen p)" by (rule p_hi)
    also have "\<dots> = 2 powi (d + 1) * 2 powi (bitlen q - 1)"
      by (simp add: d_def power_int_add[symmetric])
    also have "\<dots> \<le> 2 powi (d + 1) * of_int q"
      using q_lo by (intro mult_left_mono) simp_all
    finally show ?thesis
      using qr by (simp add: x pos_divide_less_eq)
  qed
  have il: "ilog2 x = (if 2 powi d \<le> x then d else d - 1)"
    by (simp add: ilog2_def Let_def d_def p_def q_def)
  show ?thesis
  proof (cases "2 powi d \<le> x")
    case True
    with il hi show ?thesis by simp
  next
    case False
    with il lo show ?thesis by simp
  qed
qed

lemma ilog2_eqI:
  assumes "2 powi e \<le> x" "x < 2 powi (e + 1)"
  shows "ilog2 x = e"
proof -
  have "(0::rat) < 2 powi e" by simp
  then have pos: "0 < x" using assms(1) by (rule less_le_trans)
  have b: "2 powi (ilog2 x) \<le> x \<and> x < 2 powi (ilog2 x + 1)"
    using pos by (rule ilog2_bounds)
  have "(2::rat) powi e < 2 powi (ilog2 x + 1)"
    using assms b by simp
  then have 1: "e < ilog2 x + 1" by (rule powi_less_cancel)
  have "(2::rat) powi (ilog2 x) < 2 powi (e + 1)"
    using assms b by simp
  then have 2: "ilog2 x < e + 1" by (rule powi_less_cancel)
  from 1 2 show ?thesis by simp
qed

lemma ulp64_pos: "0 < ulp64 x"
  by (simp add: ulp64_def)

lemma round_half_even_close: "\<bar>of_int (round_half_even y) - y\<bar> \<le> 1 / 2"
proof -
  have f: "of_int \<lfloor>y\<rfloor> \<le> y" "y < of_int \<lfloor>y\<rfloor> + 1"
    by linarith+
  show ?thesis
  proof (cases "y - of_int \<lfloor>y\<rfloor> < 1 / 2")
    case True
    with f show ?thesis by (simp add: round_half_even_def)
  next
    case False
    show ?thesis
    proof (cases "1 / 2 < y - of_int \<lfloor>y\<rfloor>")
      case True
      with False f show ?thesis by (simp add: round_half_even_def)
    next
      case nt: False
      with False have "y - of_int \<lfloor>y\<rfloor> = 1 / 2" by simp
      with f show ?thesis by (simp add: round_half_even_def)
    qed
  qed
qed

lemma round_half_even_of_int: "round_half_even (of_int n) = n"
  by (simp add: round_half_even_def)

lemma fl64_error: "\<bar>fl64 x - x\<bar> \<le> ulp64 x / 2"
proof (cases "x = 0")
  case True
  then show ?thesis using ulp64_pos[of x]
    by (simp add: fl64_def)
next
  case False
  define u where "u = ulp64 x"
  define n where "n = round_half_even (x / u)"
  have u: "0 < u" by (simp add: u_def ulp64_pos)
  have "\<bar>of_int n - x / u\<bar> \<le> 1 / 2"
    unfolding n_def by (rule round_half_even_close)
  then have "\<bar>of_int n - x / u\<bar> * u \<le> 1 / 2 * u"
    using u by (intro mult_right_mono) simp_all
  moreover have "(of_int n - x / u) * u = of_int n * u - x"
    using u by (simp add: field_simps)
  then have "\<bar>of_int n - x / u\<bar> * u = \<bar>of_int n * u - x\<bar>"
    using u by (metis abs_mult abs_of_pos)
  ultimately show ?thesis
    using False by (simp add: fl64_def u_def n_def)
qed

lemma fl64_exact:
  assumes "2 powi e \<le> \<bar>x\<bar>" "\<bar>x\<bar> < 2 powi (e + 1)" "- 1022 \<le> e"
    "x = of_int n * 2 powi (e - 52)"
  shows "fl64 x = x"
proof -
  have "(0::rat) < 2 powi e" by simp
  then have "0 < \<bar>x\<bar>" using assms(1) by (rule less_le_trans)
  then have nz: "x \<noteq> 0" by simp
  have "ilog2 \<bar>x\<bar> = e" using assms(1,2) by (rule ilog2_eqI)
  then have u: "ulp64 x = 2 powi (e - 52)"
    using assms(3) by (simp add: ulp64_def max_def)
  have "x / 2 powi (e - 52) = of_int n"
    using assms(4) by simp
  then show ?thesis
    using nz u assms(4) by (simp add: fl64_def round_half_even_of_int)
qed

lemma round_half_even_nearest:
  assumes "\<bar>of_int n - y\<bar> < 1 / 2"
  shows "round_half_even y = n"
proof -
  have c: "\<bar>of_int (round_half_even y) - y\<bar> \<le> 1 / 2"
    by (rule round_half_even_close)
  have "\<bar>(of_int (round_half_even y) :: rat) - of_int n\<bar> < 1"
    using assms c by linarith
  then have "\<bar>round_half_even y - n\<bar> < 1"
    by (metis of_int_diff of_int_abs of_int_less_1_iff)
  then show ?thesis by simp
qed

lemma round_half_even_tie_odd:
  assumes "y = of_int f + 1 / 2" "odd f"
  shows "round_half_even y = f + 1"
proof -
  have "\<lfloor>y\<rfloor> = f"
    using assms(1) by (simp add: floor_eq_iff)
  with assms show ?thesis
    by (simp add: round_half_even_def)
qed

lemma ulp64_eqI:
  assumes "2 powi e \<le> \<bar>x\<bar>" "\<bar>x\<bar> < 2 powi (e + 1)" "- 1022 \<le> e"
  shows "ulp64 x = 2 powi (e - 52)"
proof -
  have "ilog2 \<bar>x\<bar> = e" using assms(1,2) by (rule ilog2_eqI)
  then show ?thesis
    using assms(3) by (simp add: ulp64_def max_def)
qed

lemma fl64_eqI:
  assumes "2 powi e \<le> \<bar>x\<bar>" "\<bar>x\<bar> < 2 powi (e + 1)" "- 1022 \<le> e"
    "round_half_even (x / 2 powi (e - 52)) = n"
  shows "fl64 x = of_int n * 2 powi (e - 52)"
proof -
  have "(0::rat) < 2 powi e" by simp
  then have "0 < \<bar>x\<bar>" using assms(1) by (rule less_le_trans)
  then have nz: "x \<noteq> 0" by simp
  have u: "ulp64 x = 2 powi (e - 52)"
    using assms(1,2,3) by (rule ulp64_eqI)
  show ?thesis
    using nz u assms(4) by (simp add: fl64_def)
qed

lemma to_double_finite:
  assumes "\<bar>fl64 x\<bar> < 2 ^ 1024"
  shows "to_double x = Fin (fl64 x)"
  using assms by (simp add: to_double_def abs_less_iff not_le)

lemma js_half_Fin_cases:
  assumes "js_half v = Fin m"
  obtains s where "v = Fin s" "to_double (s / 2) = Fin m"
  using assms by (cases v) simp_all

lemma to_double_Fin:
  assumes "to_double x = Fin m"
  shows "m = fl64 x"
  using assms by (simp add: to_double_def split: if_splits)

lemma fl64_155: "fl64 155 = 155"
  by (rule fl64_exact[where e = 7 and n = "155 * 2 ^ 45"]) simp_all

lemma fl64_155_half: "fl64 (155 / 2) = 155 / 2"
  by (rule fl64_exact[where e = 6 and n = "155 * 2 ^ 45"]) simp_all

lemma js_mean_75_80: "js_half (js_add 75 80) = Fin (155 / 2)"
  by (simp add: js_add_def to_double_def fl64_155 fl64_155_half)

lemma fl64_621_4: "fl64 (621 / 4) = 621 / 4"
  by (rule fl64_exact[where e = 7 and n = "621 * 2 ^ 43"]) simp_all

lemma fl64_621_8: "fl64 (621 / 8) = 621 / 8"
  by (rule fl64_exact[where e = 6 and n = "621 * 2 ^ 43"]) simp_all

lemma js_mean_7525_80: "js_half (js_add (301 / 4) 80) = Fin (621 / 8)"
  by (simp add: js_add_def to_double_def fl64_621_4 fl64_621_8)

text \<open>The doubles nearest to 50.4 and 64.6, their sum and its half.\<close>

lemma fl64_50_4: "fl64 (252 / 5) = 7093169413108531 / 140737488355328"
proof -
  have "round_half_even (252 / 5 / 2 powi (5 - 52)) = 7093169413108531"
    by (rule round_half_even_nearest) simp
  then have "fl64 (252 / 5) = of_int 7093169413108531 * 2 powi (5 - 52)"
    by (intro fl64_eqI) simp_all
  then show ?thesis by simp
qed

lemma fl64_64_6: "fl64 (323 / 5) = 2272910436938547 / 35184372088832"
proof -
  have "round_half_even (323 / 5 / 2 powi (6 - 52)) = 4545820873877094"
    by (rule round_half_even_nearest) simp
  then have "fl64 (323 / 5) = of_int 4545820873877094 * 2 powi (6 - 52)"
    by (intro fl64_eqI) simp_all
  then show ?thesis by simp
qed

lemma fl64_sum_50_4_64_6: "fl64 (16184811160862719 / 140737488355328) = 115"
proof -
  have "round_half_even (16184811160862719 / 140737488355328 / 2 powi (6 - 52))
        = 8092405580431359 + 1"
    by (rule round_half_even_tie_odd) simp_all
  then have "fl64 (16184811160862719 / 140737488355328)
             = of_int (8092405580431359 + 1) * 2 powi (6 - 52)"
    by (intro fl64_eqI) simp_all
  then show ?thesis by simp
qed

lemma fl64_115_half: "fl64 (115 / 2) = 115 / 2"
  by (rule fl64_exact[where e = 5 and n = "115 * 2 ^ 46"]) simp_all

lemma js_mean_50_4_64_6:
  "js_half (js_add (fl64 (252 / 5)) (fl64 (323 / 5))) = Fin (115 / 2) \<and>
   Math_round (115 / 2) = 58 \<and>
   Math_round ((fl64 (252 / 5) + fl64 (323 / 5)) / 2) = 57"
proof -
  have s: "fl64 (252 / 5) + fl64 (323 / 5) = 16184811160862719 / 140737488355328"
    by (simp add: fl64_50_4 fl64_64_6)
  have "js_add (fl64 (252 / 5)) (fl64 (323 / 5)) = Fin 115"
    unfolding js_add_def s by (simp add: to_double_def fl64_sum_50_4_64_6)
  then have 1: "js_half (js_add (fl64 (252 / 5)) (fl64 (323 / 5))) = Fin (115 / 2)"
    by (simp add: to_double_def fl64_115_half)
  have 2: "Math_round (115 / 2) = 58"
    unfolding Math_round_def by linarith
  have 3: "Math_round ((fl64 (252 / 5) + fl64 (323 / 5)) / 2) = 57"
    unfolding fl64_50_4 fl64_64_6 Math_round_def by (simp add: floor_eq_iff)
  from 1 2 3 show ?thesis by simp
qed

lemma Math_round_of_int: "Math_round (of_int n) = n"
  unfolding Math_round_def by linarith

lemma tenths_close: "\<bar>of_nat (tenths x) / 10 - \<bar>x\<bar>\<bar> \<le> 1 / 20"
proof -
  define f where "f = \<lfloor>10 * \<bar>x\<bar> + 1 / 2\<rfloor>"
  have b: "of_int f \<le> 10 * \<bar>x\<bar> + 1 / 2" "10 * \<bar>x\<bar> + 1 / 2 < of_int f + 1"
    unfolding f_def by linarith+
  have "0 \<le> f"
    unfolding f_def by (simp add: zero_le_floor)
  then have t: "(of_nat (tenths x) :: rat) = of_int f"
    by (simp add: tenths_def f_def)
  from b have "\<bar>of_int f / 10 - \<bar>x\<bar>\<bar> \<le> 1 / 20"
    by linarith
  then show ?thesis
    unfolding t .
qed

lemma breakdown_rows_sixth:
  "keywords_tools_row (breakdown_rows_Results b)
     = Math_round_js (js_half (js_add (keyword_match_score b) (tech_stack_match_score b)))"
  "keywords_tools_row (breakdown_rows_ATSEvaluationPage b)
     = js_half (js_add (keyword_match_score b) (tech_stack_match_score b))"
  by (simp_all add: keywords_tools_row_def breakdown_rows_Results_def
        breakdown_rows_ATSEvaluationPage_def)

lemma example_breakdown_simps:
  "keyword_match_score (example_breakdown kw ts) = kw"
  "tech_stack_match_score (example_breakdown kw ts) = ts"
  by (simp_all add: example_breakdown_def)

lemma tenths_examples: "tenths (155 / 2) = 775" "tenths (621 / 8) = 776"
proof -
  have "\<lfloor>10 * \<bar>155 / 2 :: rat\<bar> + 1 / 2\<rfloor> = 775"
    by (simp add: floor_eq_iff)
  then show "tenths (155 / 2) = 775"
    by (simp add: tenths_def)
  have "\<lfloor>10 * \<bar>621 / 8 :: rat\<bar> + 1 / 2\<rfloor> = 776"
    by (simp add: floor_eq_iff)
  then show "tenths (621 / 8) = 776"
    by (simp add: tenths_def)
qed

lemma show_nat_examples:
  "show_nat 0 = ''0''" "show_nat 1 = ''1''" "show_nat 5 = ''5''" "show_nat 6 = ''6''"
  "show_nat 77 = ''77''" "show_nat (Suc 0) = ''1''"
  by (simp_all add: show_nat.simps)

lemma Math_round_155_half: "Math_round (155 / 2) = 78"
  unfolding Math_round_def by linarith

lemma resume_id_to_ScoringResult:
  "resume_id (to_ScoringResult uploaded i a)
   = str_or (map_of (contact_information (candidate_profile a)) ''email'')
       (''resume_'' @ show_nat i @ ''_''
          @ (case map_option name (nth_opt uploaded i) of None \<Rightarrow> ''undefined'' | Some n \<Rightarrow> n))"
  by (simp add: to_ScoringResult_def Let_def)

lemma example_not_dummy: "\<not> isDummyData (example_result s)"
  by (simp add: isDummyData_def example_result_def example_profile_def toLowerCase_def)

lemma example_call_c:
  "evaluateResumeWithATS example_env (example_world 0) (example_file ''c.pdf'') example_jd
   = (Inr (example_result 75),
      \<lparr>tick = 1,
       sent = [evaluate_request example_env (example_world 0) (example_file ''c.pdf'') example_jd]\<rparr>)"
proof -
  have "evaluateResumeWithATS example_env (example_world 0) (example_file ''c.pdf'') example_jd
        = (fst (evaluateResumeWithATS example_env (example_world 0) (example_file ''c.pdf'') example_jd),
           snd (evaluateResumeWithATS example_env (example_world 0) (example_file ''c.pdf'') example_jd))"
    by simp
  then show ?thesis
    unfolding example_scored evaluateResumeWithATS_world
    by (simp add: example_world_def)
qed

section \<open>The claims\<close>

text \<open>
  Claim C1. Every final score the aggregator produces from sub-scores between 0 and 100
  lies between 0 and 100 and is the weighted sum of the six sub-scores with the weights
  0.40, 0.25, 0.15, 0.10, 0.05 and 0.05, which add up to 1; the integer the front end
  shows for it, \<open>Math.round\<close> of the score, is within one half of that sum. The aggregator
  is the one modelled from the specification.
\<close>

theorem final_score_weighted_sum:
  assumes "sub_scores_in_range b"
  shows "0 \<le> final_score b \<and> final_score b \<le> 100 \<and>
         final_score b =
           40 / 100 * skill_match_score b + 25 / 100 * experience_score b
           + 15 / 100 * role_fit_score b + 10 / 100 * education_match_score b
           + 5 / 100 * certifications_score b
           + 5 / 100 * ((keyword_match_score b + tech_stack_match_score b) / 2) \<and>
         sum_list weights = 1 \<and>
         \<bar>of_int (Math_round (final_score b)) - weighted_sum b\<bar> \<le> 1 / 2"
proof -
  have r: "0 \<le> weighted_sum b \<and> weighted_sum b \<le> 100"
    using assms by (rule weighted_sum_in_range)
  then have eq: "final_score b = weighted_sum b"
    by (simp add: final_score_def)
  have w: "sum_list weights = 1"
    by (simp add: weights_def)
  show ?thesis
    using r w Math_round_close[of "weighted_sum b"]
    unfolding eq by (simp add: weighted_sum_expand keywords_tools_score_def)
qed

text \<open>The witness of C1: the sub-scores of the example are all 100, and so is the final score.\<close>

theorem final_score_weighted_sum_witness:
  "sub_scores_in_range (example_breakdown 100 100) \<and>
   final_score (example_breakdown 100 100) = 100"
proof -
  have h: "sub_scores_in_range (example_breakdown 100 100)"
    by (simp add: sub_scores_in_range_def in_range_def example_breakdown_def)
  show ?thesis
    using h final_score_weighted_sum[OF h]
    by (simp add: example_breakdown_def)
qed

text \<open>
  Claim C2, on the dashboard. One resume is evaluated at 75 with the status of the middle
  band. Its card does not treat it as shortlisted, and shows that status; the header
  counts it among the shortlisted, since the count filters by \<open>total_score >= 70\<close>.
\<close>

theorem dashboard_counts_75_as_shortlisted:
  "ats_scores (sortedResults (fst (handleAnalyze example_env (example_world 0)
                                     (example_dashboard [''c.pdf''])))) = [75] \<and>
   map status_label (sortedResults (fst (handleAnalyze example_env (example_world 0)
                                     (example_dashboard [''c.pdf'']))))
     = [''BORDERLINE '' @ en_dash @ '' NEEDS IMPROVEMENT''] \<and>
   map isShortlisted (sortedResults (fst (handleAnalyze example_env (example_world 0)
                                     (example_dashboard [''c.pdf''])))) = [False] \<and>
   shortlisted_count (fst (handleAnalyze example_env (example_world 0)
                                     (example_dashboard [''c.pdf'']))) = 1"
  by (simp add: shortlisted_count_def example_ranking_c ats_scores_def to_ScoringResult_simps
        example_result_simps Math_round_examples isShortlisted_def status_label_def
        status_of_75_not_shortlisted status_of_75 en_dash_def)

text \<open>
  Claim C3, on the dashboard. Two resumes are uploaded; the service cannot be reached
  for the first, \<open>down.pdf\<close>, and the second, \<open>c.pdf\<close>, is scored 75. Evaluated alone,
  the first fails and the second gets its result. After the batch the dashboard shows
  one row, named \<open>down.pdf\<close>, which carries the result of \<open>c.pdf\<close>: \<open>handleAnalyze\<close>
  reads the file name from the uploaded files at the position the result has among the
  successful ones.
\<close>

theorem dashboard_mislabels_after_failure:
  "fst (evaluateResumeWithATS example_env (example_world 0) (example_file ''down.pdf'') example_jd)
     = Inl (Error ''Unable to connect to server. Please ensure the backend is running on http://localhost:8000.'') \<and>
   fst (evaluateResumeWithATS example_env (example_world 0) (example_file ''c.pdf'') example_jd)
     = Inr (example_result 75) \<and>
   map (\<lambda>r. (filename r, resume_id r, total_score r, atsResult r))
     (sortedResults (fst (handleAnalyze example_env (example_world 0)
                            (example_dashboard [''down.pdf'', ''c.pdf'']))))
   = [(''down.pdf'', ''resume_0_down.pdf'', 75, Some (example_result 75))]"
proof -
  have b: "fst (evaluateBatchWithATS example_env w
                  [example_file ''down.pdf'', example_file ''c.pdf''] jd)
           = [example_result 75]" for w jd
    by (simp add: evaluateBatchWithATS_outcomes example_scored example_down successes_simps)
  have "sortedResults (fst (handleAnalyze example_env (example_world 0)
                         (example_dashboard [''down.pdf'', ''c.pdf''])))
        = sort_key (\<lambda>r. - total_score r)
            (convert_all [example_file ''down.pdf'', example_file ''c.pdf'']
               [example_result 75])"
    using handleAnalyze_results[of "example_dashboard [''down.pdf'', ''c.pdf'']" example_env
        "example_world 0"]
    by (simp add: sortedResults_unchanged example_dashboard_simps example_jd_nonempty b)
  then have "map (\<lambda>r. (filename r, resume_id r, total_score r, atsResult r))
     (sortedResults (fst (handleAnalyze example_env (example_world 0)
                            (example_dashboard [''down.pdf'', ''c.pdf'']))))
   = [(''down.pdf'', ''resume_0_down.pdf'', 75, Some (example_result 75))]"
    by (simp add: convert_all_one to_ScoringResult_simps resume_id_to_ScoringResult nth_opt_def
          example_file_def example_result_simps Math_round_examples show_nat_examples)
  then show ?thesis
    by (simp add: example_scored example_down)
qed

text \<open>
  Claim C4, as stated, fails: two resumes scored 79.6 and 80.4 are both rounded to 80 and
  keep their upload order, so the list presented is not in descending order of the final
  score.
\<close>

theorem ranking_by_final_score_counterexample:
  "\<not> sorted_wrt (\<lambda>x y. y \<le> x)
       (ats_scores (sortedResults (fst (handleAnalyze example_env (example_world 0)
                                         (example_dashboard [''a.pdf'', ''b.pdf''])))))"
proof
  assume "sorted_wrt (\<lambda>x y. y \<le> x)
       (ats_scores (sortedResults (fst (handleAnalyze example_env (example_world 0)
                                         (example_dashboard [''a.pdf'', ''b.pdf''])))))"
  then have "(402::rat) / 5 \<le> 398 / 5"
    unfolding example_ats_scores_ab
    by (simp only: sorted_wrt.simps list.set ball_simps insert_iff simp_thms)
  then show False by simp
qed

text \<open>
  Claim C4, amended. After an analysis the list presented to the recruiter is in
  descending order of \<open>total_score\<close>, the final score rounded by \<open>Math.round\<close>; the rows
  of any one rounded score \<open>s\<close> appear in the order of the batch results, which is the
  upload order; the list is a rearrangement of the converted batch results, and every
  row carries the result it was converted from.
\<close>

theorem ranking_by_rounded_score:
  assumes "extractedJobDescription st \<noteq> []" "resumes st \<noteq> []"
  shows "sorted_wrt (\<lambda>a b. total_score b \<le> total_score a)
           (sortedResults (fst (handleAnalyze e w st))) \<and>
         filter (\<lambda>r. total_score r = s) (sortedResults (fst (handleAnalyze e w st)))
           = filter (\<lambda>r. total_score r = s)
               (convert_all (resumes st)
                  (fst (evaluateBatchWithATS e w (resumes st) (extractedJobDescription st)))) \<and>
         mset (sortedResults (fst (handleAnalyze e w st)))
           = mset (convert_all (resumes st)
                  (fst (evaluateBatchWithATS e w (resumes st) (extractedJobDescription st)))) \<and>
         map total_score (convert_all (resumes st)
                  (fst (evaluateBatchWithATS e w (resumes st) (extractedJobDescription st))))
           = map (\<lambda>a. Math_round (ats_score a))
               (fst (evaluateBatchWithATS e w (resumes st) (extractedJobDescription st))) \<and>
         List.map_filter atsResult (convert_all (resumes st)
                  (fst (evaluateBatchWithATS e w (resumes st) (extractedJobDescription st))))
           = fst (evaluateBatchWithATS e w (resumes st) (extractedJobDescription st))"
proof -
  let ?B = "fst (evaluateBatchWithATS e w (resumes st) (extractedJobDescription st))"
  let ?C = "convert_all (resumes st) ?B"
  let ?key = "\<lambda>r. - total_score r"
  have P: "sortedResults (fst (handleAnalyze e w st)) = sort_key ?key ?C"
    using handleAnalyze_results[OF assms] by (simp add: sortedResults_unchanged)
  have "sorted (map ?key (sort_key ?key ?C))"
    by (rule sorted_sort_key)
  then have 1: "sorted_wrt (\<lambda>a b. total_score b \<le> total_score a) (sort_key ?key ?C)"
    by (simp add: sorted_map)
  have 2: "filter (\<lambda>r. total_score r = s) (sort_key ?key ?C)
           = filter (\<lambda>r. total_score r = s) ?C"
    using sort_key_stable[of ?key "- s" ?C] by simp
  have 3: "mset (sort_key ?key ?C) = mset ?C"
    by simp
  have 4: "List.map_filter atsResult ?C = ?B"
    by (rule map_filter_of_Some) (rule atsResult_convert_all)
  show ?thesis
    unfolding P using 1 2 3 4 total_score_convert_all[of "resumes st" ?B] by simp
qed

text \<open>The witness of C4: the two resumes of the counterexample, both shown with 80.\<close>

theorem ranking_by_rounded_score_witness:
  "extractedJobDescription (example_dashboard [''a.pdf'', ''b.pdf'']) \<noteq> [] \<and>
   resumes (example_dashboard [''a.pdf'', ''b.pdf'']) \<noteq> [] \<and>
   map total_score (sortedResults (fst (handleAnalyze example_env (example_world 0)
                                         (example_dashboard [''a.pdf'', ''b.pdf'']))))
     = [80, 80] \<and>
   sorted_wrt (\<lambda>a b. total_score b \<le> total_score a)
     (sortedResults (fst (handleAnalyze example_env (example_world 0)
                            (example_dashboard [''a.pdf'', ''b.pdf'']))))"
proof -
  have h1: "extractedJobDescription (example_dashboard [''a.pdf'', ''b.pdf'']) \<noteq> []"
    by (simp add: example_dashboard_simps example_jd_nonempty)
  have h2: "resumes (example_dashboard [''a.pdf'', ''b.pdf'']) \<noteq> []"
    by (simp add: example_dashboard_simps)
  have v: "map total_score (sortedResults (fst (handleAnalyze example_env (example_world 0)
                                         (example_dashboard [''a.pdf'', ''b.pdf'']))))
     = [80, 80]"
    by (simp add: example_ranking_ab to_ScoringResult_simps example_result_simps
          Math_round_examples)
  show ?thesis
    using h1 h2 v ranking_by_rounded_score[OF h1 h2, of example_env "example_world 0" 80]
    by simp
qed

text \<open>
  Claim C5, as stated, fails: of two submitted resumes, one of which cannot be evaluated,
  the batch returns one result, and nothing in the returned array stands for the other.
\<close>

theorem batch_drops_failures_counterexample:
  "length (fst (evaluateBatchWithATS example_env (example_world 0)
                  [example_file ''down.pdf'', example_file ''c.pdf''] example_jd))
     \<noteq> length [example_file ''down.pdf'', example_file ''c.pdf'']"
  by (simp add: evaluateBatchWithATS_outcomes example_scored
        example_down successes_simps)

text \<open>
  Claim C5, amended. The batch evaluates every file exactly once, in upload order,
  whatever the outcomes of the files before it; it returns the results of the successful
  evaluations only, and writes one console line, with the name of the file and the
  exception, for each failed one. Returned results and console lines together are as
  many as the files.
\<close>

theorem batch_isolates_failures:
  "evaluateBatchWithATS e w files jd =
     (successes (map snd (single_outcomes e jd w files)),
      failures (single_outcomes e jd w files),
      foldl (advance e jd) w files) \<and>
   map fst (single_outcomes e jd w files) = files \<and>
   length (fst (evaluateBatchWithATS e w files jd))
     + length (fst (snd (evaluateBatchWithATS e w files jd))) = length files \<and>
   tick (snd (snd (evaluateBatchWithATS e w files jd))) = tick w + length files"
proof -
  have m: "map fst (single_outcomes e jd w files) = files"
    by (induction files arbitrary: w) simp_all
  show ?thesis
    using m successes_failures_length[of "single_outcomes e jd w files"]
    by (simp add: evaluateBatchWithATS_outcomes length_single_outcomes tick_foldl_advance)
qed

text \<open>
  Claim C7. When \<open>handleScreening\<close> has a resume and a final job description \<open>jd\<close>: if
  \<open>jd\<close> is shorter than 50 characters the only effect is the toast of the validation
  error, and no request is sent. If it has 50 characters or more, the evaluation request
  for \<open>jd\<close> is sent and the outcome is the one of that call: the toast of the
  exception the call rejected with, or the navigation to the results page with the
  result the call returned, in which case the validation toast is not shown.
\<close>

theorem short_job_description_rejected:
  assumes "resumeFile st = Some rf" "hasJobDescription st" "finalJobDescription st = Inr jd"
  shows "(length jd < 50 \<longrightarrow>
            handleScreening e w st
              = (st\<lparr>isAnalyzing := False\<rparr>,
                 [Toast (Toast_error ''Job description must be at least 50 characters long'')],
                 w)) \<and>
         (50 \<le> length jd \<longrightarrow>
            sent (snd (snd (handleScreening e w st))) = sent w @ [evaluate_request e w rf jd] \<and>
            (\<forall>x w'. evaluateResumeWithATS e w rf jd = (Inl x, w') \<longrightarrow>
               handleScreening e w st
                 = (st\<lparr>isAnalyzing := False\<rparr>, [Toast (Toast_error (message x))], w')) \<and>
            (\<forall>a w'. evaluateResumeWithATS e w rf jd = (Inr a, w') \<longrightarrow>
               handleScreening e w st
                 = (\<lparr>resumeFile = None, jobDescFile = None, jobDescText = [],
                      isAnalyzing = False\<rparr>,
                    (if isDummyData a
                     then [Toast (Toast_error
                       ''Warning: Dummy data detected. Backend may not be processing correctly.'')]
                     else [])
                    @ [Navigate ''/results''
                         \<lparr>atsResult_nav = a,
                          candidateProfile = candidate_profile a,
                          scoreBreakdown = score_breakdown a,
                          professionalSummary = professional_summary a,
                          finalRecommendation = final_recommendation a,
                          keywordsToAdd = keywords_to_add a,
                          timestamp = clock e (tick w'),
                          uploadId = random e (tick w')\<rparr>],
                    w'\<lparr>tick := Suc (tick w')\<rparr>) \<and>
               Toast (Toast_error ''Job description must be at least 50 characters long'')
                 \<notin> set (fst (snd (handleScreening e w st)))))"
proof (cases "length jd < 50")
  case True
  with assms show ?thesis
    by (simp add: handleScreening_def screening_failed_def)
next
  case False
  obtain r w' where ev: "evaluateResumeWithATS e w rf jd = (r, w')"
    by (cases "evaluateResumeWithATS e w rf jd")
  then have w': "w' = w\<lparr>tick := Suc (tick w), sent := sent w @ [evaluate_request e w rf jd]\<rparr>"
    using evaluateResumeWithATS_world[of e w rf jd] by simp
  show ?thesis
  proof (cases r)
    case (Inl x)
    with assms False ev w' show ?thesis
      by (simp add: handleScreening_def screening_failed_def)
  next
    case (Inr a)
    with assms False ev w' show ?thesis
      by (simp add: handleScreening_def)
  qed
qed

text \<open>
  The witness of C7: a job description of 9 characters after trimming, and one of 63, for
  which the page navigates to the result of the call.
\<close>

theorem short_job_description_rejected_witness:
  "handleScreening example_env (example_world 0) (example_index ''  too short  '')
     = (example_index ''  too short  '',
        [Toast (Toast_error ''Job description must be at least 50 characters long'')],
        example_world 0) \<and>
   fst (snd (handleScreening example_env (example_world 0) (example_index example_jd)))
     = [Navigate ''/results''
          \<lparr>atsResult_nav = example_result 75,
           candidateProfile = candidate_profile (example_result 75),
           scoreBreakdown = score_breakdown (example_result 75),
           professionalSummary = professional_summary (example_result 75),
           finalRecommendation = final_recommendation (example_result 75),
           keywordsToAdd = keywords_to_add (example_result 75),
           timestamp = 1764000000001,
           uploadId = ''1''\<rparr>] \<and>
   sent (snd (snd (handleScreening example_env (example_world 0) (example_index example_jd))))
     = [evaluate_request example_env (example_world 0) (example_file ''c.pdf'') example_jd]"
proof -
  have a1: "resumeFile (example_index ''  too short  '') = Some (example_file ''c.pdf'')"
    by (simp add: example_index_simps)
  have a2: "hasJobDescription (example_index ''  too short  '')"
    by (simp add: hasJobDescription_def example_index_simps example_trim_short)
  have a3: "finalJobDescription (example_index ''  too short  '') = Inr ''too short''"
    by (simp add: finalJobDescription_def example_index_simps example_trim_short)
  have b1: "resumeFile (example_index example_jd) = Some (example_file ''c.pdf'')"
    by (simp add: example_index_simps)
  have b2: "hasJobDescription (example_index example_jd)"
    by (simp add: hasJobDescription_def example_index_simps example_trim_jd example_jd_nonempty)
  have b3: "finalJobDescription (example_index example_jd) = Inr example_jd"
    by (simp add: finalJobDescription_def example_index_simps example_trim_jd example_jd_nonempty)
  have l: "50 \<le> length example_jd"
    by (simp add: example_jd_def)
  have u: "(example_index ''  too short  '')\<lparr>isAnalyzing := False\<rparr> = example_index ''  too short  ''"
    by (simp add: example_index_def)
  have c: "clock example_env (Suc 0) = 1764000000001" "random example_env (Suc 0) = ''1''"
    by (simp_all add: example_env_def show_nat_examples)
  have t: "tick \<lparr>tick = 1, sent = [evaluate_request example_env (example_world 0)
                                         (example_file ''c.pdf'') example_jd]\<rparr> = 1"
    by simp
  have short: "handleScreening example_env (example_world 0) (example_index ''  too short  '')
     = (example_index ''  too short  '',
        [Toast (Toast_error ''Job description must be at least 50 characters long'')],
        example_world 0)"
    using short_job_description_rejected[OF a1 a2 a3, of example_env "example_world 0"] u
    by simp
  have long: "sent (snd (snd (handleScreening example_env (example_world 0)
                                (example_index example_jd))))
                = sent (example_world 0)
                  @ [evaluate_request example_env (example_world 0) (example_file ''c.pdf'')
                       example_jd]"
    and call: "\<forall>a w'. evaluateResumeWithATS example_env (example_world 0)
                          (example_file ''c.pdf'') example_jd = (Inr a, w') \<longrightarrow>
               handleScreening example_env (example_world 0) (example_index example_jd)
                 = (\<lparr>resumeFile = None, jobDescFile = None, jobDescText = [],
                      isAnalyzing = False\<rparr>,
                    (if isDummyData a
                     then [Toast (Toast_error
                       ''Warning: Dummy data detected. Backend may not be processing correctly.'')]
                     else [])
                    @ [Navigate ''/results''
                         \<lparr>atsResult_nav = a,
                          candidateProfile = candidate_profile a,
                          scoreBreakdown = score_breakdown a,
                          professionalSummary = professional_summary a,
                          finalRecommendation = final_recommendation a,
                          keywordsToAdd = keywords_to_add a,
                          timestamp = clock example_env (tick w'),
                          uploadId = random example_env (tick w')\<rparr>],
                    w'\<lparr>tick := Suc (tick w')\<rparr>) \<and>
               Toast (Toast_error ''Job description must be at least 50 characters long'')
                 \<notin> set (fst (snd (handleScreening example_env (example_world 0)
                                     (example_index example_jd))))"
    using short_job_description_rejected[OF b1 b2 b3, of example_env "example_world 0"] l
    by blast+
  have nav: "fst (snd (handleScreening example_env (example_world 0) (example_index example_jd)))
     = [Navigate ''/results''
          \<lparr>atsResult_nav = example_result 75,
           candidateProfile = candidate_profile (example_result 75),
           scoreBreakdown = score_breakdown (example_result 75),
           professionalSummary = professional_summary (example_result 75),
           finalRecommendation = final_recommendation (example_result 75),
           keywordsToAdd = keywords_to_add (example_result 75),
           timestamp = 1764000000001,
           uploadId = ''1''\<rparr>]"
    using call[rule_format, OF example_call_c]
    by (simp add: example_not_dummy c)
  have s0: "sent (example_world 0) = []"
    by (simp add: example_world_def)
  show ?thesis
    using short long nav by (simp add: s0)
qed

text \<open>
  Claim C8. When the evaluation call fails, because \<open>fetch\<close> rejects or because the
  response is not OK, \<open>evaluateResumeWithATS\<close> rejects with an exception: the one the
  \<open>catch\<close> clause makes of the rejection, or an \<open>Error\<close> carrying the detail of the
  response or its status. No result, and so no score, is returned.
\<close>

theorem failed_call_is_error:
  assumes "call_fails e w f jd"
  shows "(\<exists>x. fst (evaluateResumeWithATS e w f jd) = Inl x) \<and>
         (\<forall>x. respond e (tick w) (evaluate_request e w f jd) = Inl x
            \<longrightarrow> fst (evaluateResumeWithATS e w f jd) = Inl (rethrow e x)) \<and>
         (\<forall>st body. respond e (tick w) (evaluate_request e w f jd)
                         = Inr (Error_response st body)
            \<longrightarrow> fst (evaluateResumeWithATS e w f jd) = Inl (Error (error_message st body)))"
proof (cases "respond e (tick w) (evaluate_request e w f jd)")
  case (Inl x)
  then show ?thesis
    by (simp add: evaluateResumeWithATS_def Let_def)
next
  case (Inr r)
  with assms have "\<not> ok r"
    by (simp add: call_fails_def)
  then obtain st body where "r = Error_response st body"
    by (cases r) simp_all
  with Inr show ?thesis
    by (simp add: evaluateResumeWithATS_def Let_def rethrow_Error)
qed

text \<open>
  The witness of C8: the unreachable service and the response with status 500 of the
  example server.
\<close>

theorem failed_call_is_error_witness:
  "call_fails example_env (example_world 0) (example_file ''down.pdf'') example_jd \<and>
   call_fails example_env (example_world 0) (example_file ''other.pdf'') example_jd \<and>
   fst (evaluateResumeWithATS example_env (example_world 0) (example_file ''down.pdf'') example_jd)
     = Inl (Error ''Unable to connect to server. Please ensure the backend is running on http://localhost:8000.'') \<and>
   fst (evaluateResumeWithATS example_env (example_world 0) (example_file ''other.pdf'') example_jd)
     = Inl (Error ''HTTP error! status: 500'')"
proof -
  have r1: "respond example_env (tick (example_world 0))
              (evaluate_request example_env (example_world 0) (example_file ''down.pdf'') example_jd)
            = Inl (TypeError ''Failed to fetch'')"
    by (simp add: example_env_def example_respond_def evaluate_request_def example_file_def
          example_scores_def)
  have r2: "respond example_env (tick (example_world 0))
              (evaluate_request example_env (example_world 0) (example_file ''other.pdf'') example_jd)
            = Inr (Error_response 500 (Inr None))"
    by (simp add: example_env_def example_respond_def evaluate_request_def example_file_def
          example_scores_def)
  have h1: "call_fails example_env (example_world 0) (example_file ''down.pdf'') example_jd"
    by (simp add: call_fails_def r1)
  have h2: "call_fails example_env (example_world 0) (example_file ''other.pdf'') example_jd"
    by (simp add: call_fails_def r2)
  have s: "show_nat 500 = ''500''"
    by (simp add: show_nat.simps)
  have a: "API_BASE_URL example_env = ''http://localhost:8000''"
    by (simp add: example_env_def)
  show ?thesis
    using h1 h2 failed_call_is_error[OF h1] failed_call_is_error[OF h2] r1 r2
    by (simp add: rethrow_def a s)
qed

text \<open>
  Claim C9, as stated, fails on both pages: for keyword score 75 and tool score 80 the
  results page displays 78, not 77.5; for keyword score 75.25 and tool score 80 the
  evaluation page displays 77.6, not 77.625.
\<close>

theorem keywords_tools_displayed_counterexample:
  "displayed_Results (keywords_tools_row (breakdown_rows_Results (example_breakdown 75 80)))
     = Fin 78 \<and>
   displayed_Results (keywords_tools_row (breakdown_rows_Results (example_breakdown 75 80)))
     \<noteq> Fin ((keyword_match_score (example_breakdown 75 80)
               + tech_stack_match_score (example_breakdown 75 80)) / 2) \<and>
   displayed_ATSEvaluationPage
       (keywords_tools_row (breakdown_rows_ATSEvaluationPage (example_breakdown (301 / 4) 80)))
     = Some ''77.6'' \<and>
   (keyword_match_score (example_breakdown (301 / 4) 80)
      + tech_stack_match_score (example_breakdown (301 / 4) 80)) / 2 = 621 / 8 \<and>
   of_nat (tenths (621 / 8)) / 10 \<noteq> (621 / 8 :: rat)"
proof -
  have 1: "displayed_Results (keywords_tools_row (breakdown_rows_Results (example_breakdown 75 80)))
     = Fin 78"
    by (simp add: breakdown_rows_sixth example_breakdown_simps js_mean_75_80
          displayed_Results_def Math_round_155_half Math_round_of_int[of 78, simplified])
  have 2: "displayed_ATSEvaluationPage
       (keywords_tools_row (breakdown_rows_ATSEvaluationPage (example_breakdown (301 / 4) 80)))
     = Some ''77.6''"
    by (simp add: breakdown_rows_sixth example_breakdown_simps js_mean_7525_80
          displayed_ATSEvaluationPage_def tenths_examples show_nat_examples)
  show ?thesis
    unfolding 1 2 by (simp add: example_breakdown_simps tenths_examples)
qed

text \<open>
  Claim C9, amended. Let \<open>m\<close> be the mean of \<open>keyword_match_score\<close> and
  \<open>tech_stack_match_score\<close> as the page computes it in double arithmetic: the sum
  rounded to a double \<open>s\<close>, then halved. The results page displays \<open>Math.round(m)\<close>, an
  integer at most one half away from \<open>m\<close>. The evaluation page gives \<open>m\<close> to the progress
  bar and displays \<open>m.toFixed(1)\<close>, the number of tenths nearest to \<open>m\<close>, at most one
  twentieth away from it. Each of the two roundings that lead to \<open>m\<close> errs by at most
  half the spacing of the doubles at the number rounded.
\<close>

theorem keywords_tools_displayed:
  assumes "js_half (js_add (keyword_match_score b) (tech_stack_match_score b)) = Fin m"
  shows "keywords_tools_row (breakdown_rows_Results b) = Fin (of_int (Math_round m)) \<and>
         displayed_Results (keywords_tools_row (breakdown_rows_Results b))
           = Fin (of_int (Math_round m)) \<and>
         \<bar>of_int (Math_round m) - m\<bar> \<le> 1 / 2 \<and>
         keywords_tools_row (breakdown_rows_ATSEvaluationPage b) = Fin m \<and>
         (\<bar>m\<bar> < 10 ^ 21 \<longrightarrow>
            displayed_ATSEvaluationPage (keywords_tools_row (breakdown_rows_ATSEvaluationPage b))
              = Some ((if m < 0 then ''-'' else [])
                      @ show_nat (tenths m div 10) @ ''.'' @ show_nat (tenths m mod 10))) \<and>
         \<bar>of_nat (tenths m) / 10 - \<bar>m\<bar>\<bar> \<le> 1 / 20 \<and>
         (\<exists>s. js_add (keyword_match_score b) (tech_stack_match_score b) = Fin s \<and>
              \<bar>s - (keyword_match_score b + tech_stack_match_score b)\<bar>
                \<le> ulp64 (keyword_match_score b + tech_stack_match_score b) / 2 \<and>
              \<bar>m - s / 2\<bar> \<le> ulp64 (s / 2) / 2)"
proof -
  have r: "keywords_tools_row (breakdown_rows_Results b) = Fin (of_int (Math_round m))"
    using assms by (simp add: breakdown_rows_sixth)
  have d: "displayed_Results (keywords_tools_row (breakdown_rows_Results b))
           = Fin (of_int (Math_round m))"
    unfolding r by (simp add: displayed_Results_def Math_round_of_int)
  have a: "keywords_tools_row (breakdown_rows_ATSEvaluationPage b) = Fin m"
    using assms by (simp add: breakdown_rows_sixth)
  have t: "\<bar>m\<bar> < 10 ^ 21 \<longrightarrow>
            displayed_ATSEvaluationPage (keywords_tools_row (breakdown_rows_ATSEvaluationPage b))
              = Some ((if m < 0 then ''-'' else [])
                      @ show_nat (tenths m div 10) @ ''.'' @ show_nat (tenths m mod 10))"
    unfolding a by (simp add: displayed_ATSEvaluationPage_def)
  obtain s where s: "js_add (keyword_match_score b) (tech_stack_match_score b) = Fin s"
    and h: "to_double (s / 2) = Fin m"
    using assms by (rule js_half_Fin_cases)
  have m: "m = fl64 (s / 2)"
    using h by (rule to_double_Fin)
  have "s = fl64 (keyword_match_score b + tech_stack_match_score b)"
    using s unfolding js_add_def by (rule to_double_Fin)
  then have e1: "\<bar>s - (keyword_match_score b + tech_stack_match_score b)\<bar>
                \<le> ulp64 (keyword_match_score b + tech_stack_match_score b) / 2"
    using fl64_error[of "keyword_match_score b + tech_stack_match_score b"] by simp
  have e2: "\<bar>m - s / 2\<bar> \<le> ulp64 (s / 2) / 2"
    unfolding m by (rule fl64_error)
  from s e1 e2 have ex: "\<exists>s. js_add (keyword_match_score b) (tech_stack_match_score b) = Fin s \<and>
              \<bar>s - (keyword_match_score b + tech_stack_match_score b)\<bar>
                \<le> ulp64 (keyword_match_score b + tech_stack_match_score b) / 2 \<and>
              \<bar>m - s / 2\<bar> \<le> ulp64 (s / 2) / 2"
    by blast
  show ?thesis
    using r d a t ex Math_round_close[of m] tenths_close[of m] by blast
qed

text \<open>The witness of C9: keyword score 75 and tool score 80, displayed as 78 and as 77.5.\<close>

theorem keywords_tools_displayed_witness:
  "js_half (js_add (keyword_match_score (example_breakdown 75 80))
                   (tech_stack_match_score (example_breakdown 75 80))) = Fin (155 / 2) \<and>
   displayed_Results (keywords_tools_row (breakdown_rows_Results (example_breakdown 75 80)))
     = Fin 78 \<and>
   displayed_ATSEvaluationPage
       (keywords_tools_row (breakdown_rows_ATSEvaluationPage (example_breakdown 75 80)))
     = Some ''77.5''"
proof -
  have h: "js_half (js_add (keyword_match_score (example_breakdown 75 80))
                   (tech_stack_match_score (example_breakdown 75 80))) = Fin (155 / 2)"
    by (simp add: example_breakdown_simps js_mean_75_80)
  have l: "\<bar>155 / 2 :: rat\<bar> < 10 ^ 21"
    by simp
  show ?thesis
    using h l keywords_tools_displayed[OF h]
    by (simp add: Math_round_155_half tenths_examples show_nat_examples displayed_Results_def
          displayed_ATSEvaluationPage_def Math_round_of_int[of 78, simplified])
qed

text \<open>
  Claim C10. The gauge is total: \<open>NaN\<close> is shown as 0, a finite score \<open>x\<close> as the integer
  \<open>max(0, min(100, round(x)))\<close>, minus infinity as 0 and plus infinity as 100; whatever
  the input, the value shown is an integer between 0 and 100.
\<close>

theorem score_gauge_total:
  "validScore NaN = Fin 0 \<and>
   validScore (Fin x) = Fin (of_int (max 0 (min 100 (Math_round x)))) \<and>
   validScore NegInf = Fin 0 \<and> validScore PosInf = Fin 100 \<and>
   (\<exists>n::int. validScore s = Fin (of_int n) \<and> 0 \<le> n \<and> n \<le> 100)"
proof -
  have nan: "validScore NaN = Fin 0"
    by (simp add: validScore_def js_or_def)
  have neg: "validScore NegInf = Fin 0"
    by (simp add: validScore_def js_or_def)
  have pos: "validScore PosInf = Fin 100"
    by (simp add: validScore_def js_or_def)
  have fin: "validScore (Fin y) = Fin (of_int (max 0 (min 100 (Math_round y))))" for y
    by (simp add: validScore_def js_or_def)
  have "\<exists>n::int. validScore s = Fin (of_int n) \<and> 0 \<le> n \<and> n \<le> 100"
  proof (cases s)
    case NaN
    with nan show ?thesis by (intro exI[of _ 0]) simp
  next
    case NegInf
    with neg show ?thesis by (intro exI[of _ 0]) simp
  next
    case (Fin y)
    with fin[of y] show ?thesis
      by (intro exI[of _ "max 0 (min 100 (Math_round y))"]) simp
  next
    case PosInf
    with pos show ?thesis by (intro exI[of _ 100]) simp
  qed
  with nan neg pos fin[of x] show ?thesis by simp
qed

end
